theory Spec2Isabelle
  imports Main
begin

section \<open>Python values\<close>

text \<open>
  The program of \<^verbatim>\<open>src/main.py\<close> passes around what \<^verbatim>\<open>resp.json()\<close> returns and
  dictionaries built from it. A value is \<^verbatim>\<open>None\<close>, a bool, an int, a float, a str, a list
  or a dict whose keys are strings. The program only stores and prints floats, so a float
  is kept as the text Python prints for it. A str is kept as its UTF-8 bytes; a dict as an
  association list, looked up with \<open>map_of\<close>.
\<close>

datatype pyval =
    PNone
  | PBool bool
  | PInt int
  | PFloat string
  | PStr string
  | PList "pyval list"
  | PDict "(string \<times> pyval) list"

type_synonym pydict = "(string \<times> pyval) list"

text \<open>Exceptions that leave a function are values: \<open>Inl\<close> of the exception raised.\<close>

datatype py_error =
    RuntimeError string
  | JSONDecodeError
  | AttributeError
  | TypeError
  | IndexError
  | KeyError

definition and_then :: "py_error + 'a \<Rightarrow> ('a \<Rightarrow> py_error + 'b) \<Rightarrow> py_error + 'b" where
  "and_then m f = (case m of Inl e \<Rightarrow> Inl e | Inr v \<Rightarrow> f v)"

subsection \<open>Strings\<close>

definition newline :: string where
  "newline = [CHR 0x0A]"

text \<open>The degree sign U+00B0 and the emoji of the source, as the UTF-8 bytes of the file.\<close>

definition degree :: string where
  "degree = [CHR 0xC2, CHR 0xB0]"

definition cross_mark :: string where
  "cross_mark = [CHR 0xE2, CHR 0x9D, CHR 0x8C]"

definition round_pushpin :: string where
  "round_pushpin = [CHR 0xF0, CHR 0x9F, CHR 0x93, CHR 0x8D]"

definition sun_small_cloud :: string where
  "sun_small_cloud = [CHR 0xF0, CHR 0x9F, CHR 0x8C, CHR 0xA4, CHR 0xEF, CHR 0xB8, CHR 0x8F]"

definition thermometer :: string where
  "thermometer = [CHR 0xF0, CHR 0x9F, CHR 0x8C, CHR 0xA1, CHR 0xEF, CHR 0xB8, CHR 0x8F]"

definition droplet :: string where
  "droplet = [CHR 0xF0, CHR 0x9F, CHR 0x92, CHR 0xA7]"

definition dash_symbol :: string where
  "dash_symbol = [CHR 0xF0, CHR 0x9F, CHR 0x92, CHR 0xA8]"

definition crystal_ball :: string where
  "crystal_ball = [CHR 0xF0, CHR 0x9F, CHR 0x94, CHR 0xAE]"

text \<open>
  Python indexes, slices and iterates a str by code point. In UTF-8 a code point is one
  leading byte and the continuation bytes (\<open>0x80\<close> to \<open>0xBF\<close>) after it.
\<close>

definition is_continuation :: "char \<Rightarrow> bool" where
  "is_continuation c = (128 \<le> (of_char c :: nat) \<and> (of_char c :: nat) < 192)"

function code_points :: "string \<Rightarrow> string list" where
  "code_points [] = []"
| "code_points (c # cs) =
     (c # takeWhile is_continuation cs) # code_points (dropWhile is_continuation cs)"
  by pat_completeness auto
termination
  by (relation "measure length") (auto simp: length_dropWhile_le less_Suc_eq_le)

text \<open>\<^verbatim>\<open>sep.join(xs)\<close>.\<close>

fun join :: "string \<Rightarrow> string list \<Rightarrow> string" where
  "join sep [] = []"
| "join sep [x] = x"
| "join sep (x # y # ys) = x @ sep @ join sep (y # ys)"

text \<open>\<^verbatim>\<open>str(n)\<close> of an int: decimal digits, with a minus sign below zero.\<close>

definition digit_char :: "nat \<Rightarrow> char" where
  "digit_char d = ''0123456789'' ! d"

fun show_nat :: "nat \<Rightarrow> string" where
  "show_nat n = (if n < 10 then [digit_char n] else show_nat (n div 10) @ [digit_char (n mod 10)])"

declare show_nat.simps [simp del]

definition show_int :: "int \<Rightarrow> string" where
  "show_int i = (if i < 0 then CHR ''-'' # show_nat (nat (- i)) else show_nat (nat i))"

text \<open>
  What an f-string writes for \<^verbatim>\<open>{v}\<close>, that is \<^verbatim>\<open>str(v)\<close>. For a list or a dict this
  is Python's \<^verbatim>\<open>repr\<close>, which this development takes as the parameter \<open>r\<close>.
\<close>

fun py_str :: "(pyval \<Rightarrow> string) \<Rightarrow> pyval \<Rightarrow> string" where
  "py_str r PNone = ''None''"
| "py_str r (PBool b) = (if b then ''True'' else ''False'')"
| "py_str r (PInt i) = show_int i"
| "py_str r (PFloat f) = f"
| "py_str r (PStr s) = s"
| "py_str r (PList xs) = r (PList xs)"
| "py_str r (PDict kvs) = r (PDict kvs)"

subsection \<open>Operations on values\<close>

text \<open>\<^verbatim>\<open>x.get(k, default)\<close>: only a dict has the method.\<close>

fun py_get :: "pyval \<Rightarrow> string \<Rightarrow> pyval \<Rightarrow> py_error + pyval" where
  "py_get (PDict kvs) k dflt = Inr (case map_of kvs k of None \<Rightarrow> dflt | Some v \<Rightarrow> v)"
| "py_get _ k dflt = Inl AttributeError"

text \<open>
  \<^verbatim>\<open>x[0]\<close>: the first element of a list, the first code point of a str; an empty one
  raises \<^verbatim>\<open>IndexError\<close>. The keys of a parsed JSON object are strings, so \<^verbatim>\<open>0\<close> is
  never a key of a dict. The other values are not subscriptable.
\<close>

fun py_index0 :: "pyval \<Rightarrow> py_error + pyval" where
  "py_index0 (PList []) = Inl IndexError"
| "py_index0 (PList (x # xs)) = Inr x"
| "py_index0 (PStr s) = (case code_points s of [] \<Rightarrow> Inl IndexError | c # cs \<Rightarrow> Inr (PStr c))"
| "py_index0 (PDict kvs) = Inl KeyError"
| "py_index0 _ = Inl TypeError"

text \<open>
  \<^verbatim>\<open>xs[:n]\<close> on a sequence: the first \<open>n\<close> elements when \<open>0 \<le> n\<close>, and all but the
  last \<open>- n\<close> elements when \<open>n < 0\<close>.
\<close>

definition slice_to :: "'a list \<Rightarrow> int \<Rightarrow> 'a list" where
  "slice_to xs n = (if 0 \<le> n then take (nat n) xs else take (nat (int (length xs) + n)) xs)"

text \<open>
  \<^verbatim>\<open>x[:n]\<close> on a value. A dict takes the slice as a key, which it does not have
  (\<^verbatim>\<open>KeyError\<close>; before Python 3.12 a slice is unhashable and the error is a
  \<^verbatim>\<open>TypeError\<close>).
\<close>

fun py_slice_to :: "pyval \<Rightarrow> int \<Rightarrow> py_error + pyval" where
  "py_slice_to (PList xs) n = Inr (PList (slice_to xs n))"
| "py_slice_to (PStr s) n = Inr (PStr (concat (slice_to (code_points s) n)))"
| "py_slice_to (PDict kvs) n = Inl KeyError"
| "py_slice_to _ n = Inl TypeError"

text \<open>The elements a \<^verbatim>\<open>for\<close> loop visits.\<close>

fun py_iter :: "pyval \<Rightarrow> py_error + pyval list" where
  "py_iter (PList xs) = Inr xs"
| "py_iter (PStr s) = Inr (map PStr (code_points s))"
| "py_iter (PDict kvs) = Inr (map (\<lambda>kv. PStr (fst kv)) kvs)"
| "py_iter _ = Inl TypeError"

text \<open>\<^verbatim>\<open>k in d\<close> and \<^verbatim>\<open>d[k]\<close> on a dict.\<close>

definition py_in :: "string \<Rightarrow> pydict \<Rightarrow> bool" where
  "py_in k d = (map_of d k \<noteq> None)"

definition py_getitem :: "pydict \<Rightarrow> string \<Rightarrow> py_error + pyval" where
  "py_getitem d k = (case map_of d k of None \<Rightarrow> Inl KeyError | Some v \<Rightarrow> Inr v)"

section \<open>The network\<close>

text \<open>
  \<^verbatim>\<open>requests.get(url, params=params, timeout=10)\<close> either raises a
  \<^verbatim>\<open>RequestException\<close> (a timeout, a connection failure, too many redirects, ...) whose
  text is \<^verbatim>\<open>str(e)\<close>, or returns a response. What the network answers is the parameter
  \<open>net\<close> of the program. Every request issued is recorded in the world.
\<close>

record request =
  req_url :: string
  req_params :: "(string \<times> string) list"
  req_timeout :: nat

record response =
  status_code :: nat
  reason :: string
  resp_url :: string
  json_body :: "pyval option"

datatype request_exception = Timeout | ConnectionError | OtherRequestException

datatype http_outcome = Raises request_exception string | Responds response

datatype stdout_item = Printed string | PrintedUnexpected py_error

record world =
  requests :: "request list"
  stdout :: "stdout_item list"

definition requests_get :: "(request \<Rightarrow> http_outcome) \<Rightarrow> request \<Rightarrow> world \<Rightarrow> http_outcome \<times> world" where
  "requests_get net req w = (net req, w\<lparr>requests := requests w @ [req]\<rparr>)"

text \<open>
  \<^verbatim>\<open>Response.raise_for_status()\<close> of the requests library raises an \<^verbatim>\<open>HTTPError\<close>
  (a \<^verbatim>\<open>RequestException\<close>) for a status from 400 to 599 and returns for every other
  status. The result here is the text of the exception raised, if any.
\<close>

definition raise_for_status :: "response \<Rightarrow> string option" where
  "raise_for_status resp =
     (if 400 \<le> status_code resp \<and> status_code resp < 500 then
        Some (show_nat (status_code resp) @ '' Client Error: '' @ reason resp @ '' for url: '' @ resp_url resp)
      else if 500 \<le> status_code resp \<and> status_code resp < 600 then
        Some (show_nat (status_code resp) @ '' Server Error: '' @ reason resp @ '' for url: '' @ resp_url resp)
      else None)"

text \<open>\<^verbatim>\<open>resp.json()\<close> raises when the body is not JSON.\<close>

definition resp_json :: "response \<Rightarrow> py_error + pyval" where
  "resp_json resp = (case json_body resp of None \<Rightarrow> Inl JSONDecodeError | Some v \<Rightarrow> Inr v)"

section \<open>Configuration\<close>

text \<open>
  Lines 12 to 14. The environment is what \<^verbatim>\<open>os.getenv\<close> reads, after
  \<^verbatim>\<open>load_dotenv()\<close> has merged the \<^verbatim>\<open>.env\<close> file into it.
\<close>

definition load_api_key :: "(string \<rightharpoonup> string) \<Rightarrow> py_error + string" where
  "load_api_key env =
     (case env ''OPENWEATHER_API_KEY'' of
        None \<Rightarrow> Inl (RuntimeError (cross_mark @ '' Missing OPENWEATHER_API_KEY in .env file''))
      | Some k \<Rightarrow>
          if k = [] then Inl (RuntimeError (cross_mark @ '' Missing OPENWEATHER_API_KEY in .env file''))
          else Inr k)"

definition BASE_URL :: string where
  "BASE_URL = ''https://api.openweathermap.org/data/2.5''"

section \<open>Core functions\<close>

text \<open>
  The \<^verbatim>\<open>try\<close> block of both fetch functions (lines 26 to 30 and 54 to 58): the
  response, or the text of the \<^verbatim>\<open>RequestException\<close> caught.
\<close>

definition try_get :: "(request \<Rightarrow> http_outcome) \<Rightarrow> request \<Rightarrow> world \<Rightarrow> (string + response) \<times> world" where
  "try_get net req w =
     (case requests_get net req w of
        (Raises k e, w') \<Rightarrow> (Inl e, w')
      | (Responds resp, w') \<Rightarrow>
          (case raise_for_status resp of Some e \<Rightarrow> (Inl e, w') | None \<Rightarrow> (Inr resp, w')))"

definition fetch_weather_current ::
  "(request \<Rightarrow> http_outcome) \<Rightarrow> string \<Rightarrow> string \<Rightarrow> string \<Rightarrow> world \<Rightarrow> (py_error + pydict) \<times> world" where
  "fetch_weather_current net api_key city units w =
     (let url = BASE_URL @ ''/weather'';
          params = [(''q'', city), (''appid'', api_key), (''units'', units)]
      in case try_get net \<lparr>req_url = url, req_params = params, req_timeout = 10\<rparr> w of
           (Inl e, w') \<Rightarrow> (Inr [(''error'', PStr (''Request failed: '' @ e))], w')
         | (Inr resp, w') \<Rightarrow>
             (and_then (resp_json resp) (\<lambda>data.
              and_then (py_get data ''main'' (PDict [])) (\<lambda>main.
              and_then (py_get data ''weather'' (PList [PDict []])) (\<lambda>weathers.
              and_then (py_index0 weathers) (\<lambda>weather.
              and_then (py_get data ''wind'' (PDict [])) (\<lambda>wind.
              and_then (py_get data ''name'' PNone) (\<lambda>v_city.
              and_then (py_get data ''sys'' (PDict [])) (\<lambda>sys.
              and_then (py_get sys ''country'' PNone) (\<lambda>v_country.
              and_then (py_get main ''temp'' PNone) (\<lambda>v_temp.
              and_then (py_get main ''feels_like'' PNone) (\<lambda>v_feels_like.
              and_then (py_get main ''humidity'' PNone) (\<lambda>v_humidity.
              and_then (py_get main ''pressure'' PNone) (\<lambda>v_pressure.
              and_then (py_get weather ''main'' PNone) (\<lambda>v_weather_main.
              and_then (py_get weather ''description'' PNone) (\<lambda>v_weather_desc.
              and_then (py_get wind ''speed'' PNone) (\<lambda>v_wind_speed.
              Inr [(''city'', v_city),
                   (''country'', v_country),
                   (''temp'', v_temp),
                   (''feels_like'', v_feels_like),
                   (''humidity'', v_humidity),
                   (''pressure'', v_pressure),
                   (''weather_main'', v_weather_main),
                   (''weather_desc'', v_weather_desc),
                   (''wind_speed'', v_wind_speed)]))))))))))))))), w'))"

text \<open>The body of the loop of \<^verbatim>\<open>fetch_weather_forecast\<close> (lines 65 to 77).\<close>

definition forecast_entry :: "pyval \<Rightarrow> py_error + pyval" where
  "forecast_entry entry =
     and_then (py_get entry ''main'' (PDict [])) (\<lambda>main.
     and_then (py_get entry ''weather'' (PList [PDict []])) (\<lambda>weathers.
     and_then (py_index0 weathers) (\<lambda>weather.
     and_then (py_get entry ''wind'' (PDict [])) (\<lambda>wind.
     and_then (py_get entry ''dt_txt'' PNone) (\<lambda>v_datetime.
     and_then (py_get main ''temp'' PNone) (\<lambda>v_temp.
     and_then (py_get main ''feels_like'' PNone) (\<lambda>v_feels_like.
     and_then (py_get main ''humidity'' PNone) (\<lambda>v_humidity.
     and_then (py_get main ''pressure'' PNone) (\<lambda>v_pressure.
     and_then (py_get weather ''main'' PNone) (\<lambda>v_weather_main.
     and_then (py_get weather ''description'' PNone) (\<lambda>v_weather_desc.
     and_then (py_get wind ''speed'' PNone) (\<lambda>v_wind_speed.
     Inr (PDict [(''datetime'', v_datetime),
                 (''temp'', v_temp),
                 (''feels_like'', v_feels_like),
                 (''humidity'', v_humidity),
                 (''pressure'', v_pressure),
                 (''weather_main'', v_weather_main),
                 (''weather_desc'', v_weather_desc),
                 (''wind_speed'', v_wind_speed)])))))))))))))"

text \<open>The loop itself: \<open>forecasts\<close> is the list the source appends to.\<close>

fun forecast_loop :: "pyval list \<Rightarrow> pyval list \<Rightarrow> py_error + pyval list" where
  "forecast_loop [] forecasts = Inr forecasts"
| "forecast_loop (entry # rest) forecasts =
     and_then (forecast_entry entry) (\<lambda>d. forecast_loop rest (forecasts @ [d]))"

definition fetch_weather_forecast ::
  "(request \<Rightarrow> http_outcome) \<Rightarrow> string \<Rightarrow> string \<Rightarrow> int \<Rightarrow> string \<Rightarrow> world \<Rightarrow> (py_error + pydict) \<times> world" where
  "fetch_weather_forecast net api_key city cnt units w =
     (let url = BASE_URL @ ''/forecast'';
          params = [(''q'', city), (''appid'', api_key), (''units'', units)]
      in case try_get net \<lparr>req_url = url, req_params = params, req_timeout = 10\<rparr> w of
           (Inl e, w') \<Rightarrow> (Inr [(''error'', PStr (''Request failed: '' @ e))], w')
         | (Inr resp, w') \<Rightarrow>
             (and_then (resp_json resp) (\<lambda>data.
              and_then (py_get data ''list'' (PList [])) (\<lambda>raw_list.
              and_then (py_slice_to raw_list cnt) (\<lambda>sliced.
              and_then (py_iter sliced) (\<lambda>entries.
              and_then (forecast_loop entries []) (\<lambda>forecasts.
              and_then (py_get data ''city'' (PDict [])) (\<lambda>city1.
              and_then (py_get city1 ''name'' PNone) (\<lambda>v_city.
              and_then (py_get data ''city'' (PDict [])) (\<lambda>city2.
              and_then (py_get city2 ''country'' PNone) (\<lambda>v_country.
              Inr [(''city'', v_city),
                   (''country'', v_country),
                   (''forecasts'', PList forecasts)]))))))))), w'))"

section \<open>Display helpers\<close>

definition pretty_current :: "(pyval \<Rightarrow> string) \<Rightarrow> pydict \<Rightarrow> py_error + string" where
  "pretty_current r d =
     (if py_in ''error'' d then
        and_then (py_getitem d ''error'') (\<lambda>e. Inr (''Error: '' @ py_str r e))
      else
        and_then (py_getitem d ''city'') (\<lambda>v_city.
        and_then (py_getitem d ''country'') (\<lambda>v_country.
        and_then (py_getitem d ''weather_main'') (\<lambda>v_weather_main.
        and_then (py_getitem d ''weather_desc'') (\<lambda>v_weather_desc.
        and_then (py_getitem d ''temp'') (\<lambda>v_temp.
        and_then (py_getitem d ''feels_like'') (\<lambda>v_feels_like.
        and_then (py_getitem d ''humidity'') (\<lambda>v_humidity.
        and_then (py_getitem d ''pressure'') (\<lambda>v_pressure.
        and_then (py_getitem d ''wind_speed'') (\<lambda>v_wind_speed.
        Inr (round_pushpin @ '' '' @ py_str r v_city @ '', '' @ py_str r v_country @ newline
           @ sun_small_cloud @ ''  '' @ py_str r v_weather_main @ '' - '' @ py_str r v_weather_desc @ newline
           @ thermometer @ ''  Temp: '' @ py_str r v_temp @ degree @ ''C (feels like ''
               @ py_str r v_feels_like @ degree @ ''C)'' @ newline
           @ droplet @ '' Humidity: '' @ py_str r v_humidity @ ''% | Pressure: ''
               @ py_str r v_pressure @ '' hPa'' @ newline
           @ dash_symbol @ '' Wind speed: '' @ py_str r v_wind_speed @ '' m/s'' @ newline)))))))))))"

text \<open>The loop of \<^verbatim>\<open>pretty_forecast\<close>: \<open>out\<close> is the list the source appends to.\<close>

fun forecast_lines :: "(pyval \<Rightarrow> string) \<Rightarrow> pyval list \<Rightarrow> string list \<Rightarrow> py_error + string list" where
  "forecast_lines r [] out = Inr out"
| "forecast_lines r (entry # rest) out =
     and_then (py_get entry ''datetime'' PNone) (\<lambda>dt_txt.
     and_then (py_get entry ''temp'' PNone) (\<lambda>temp.
     and_then (py_get entry ''weather_desc'' PNone) (\<lambda>desc.
     forecast_lines r rest
       (out @ [py_str r dt_txt @ '': '' @ py_str r temp @ degree @ ''C, '' @ py_str r desc]))))"

definition pretty_forecast :: "(pyval \<Rightarrow> string) \<Rightarrow> pydict \<Rightarrow> int \<Rightarrow> py_error + string" where
  "pretty_forecast r fc show_n =
     (if py_in ''error'' fc then
        and_then (py_getitem fc ''error'') (\<lambda>e. Inr (''Error: '' @ py_str r e))
      else
        and_then (py_get (PDict fc) ''forecasts'' (PList [])) (\<lambda>forecasts.
        and_then (py_slice_to forecasts show_n) (\<lambda>sliced.
        and_then (py_iter sliced) (\<lambda>entries.
        and_then (forecast_lines r entries []) (\<lambda>out.
        Inr (if out \<noteq> [] then join newline out else ''No forecast data.''))))))"

section \<open>The command line\<close>

text \<open>
  The arguments are what \<^verbatim>\<open>parser.parse_args()\<close> returned. \<^verbatim>\<open>print\<close> appends to the
  standard output of the world; what it writes for an exception object is recorded as the
  exception.
\<close>

record args =
  arg_city :: string
  arg_forecast :: bool
  arg_entries :: int

definition print :: "string \<Rightarrow> world \<Rightarrow> world" where
  "print s w = w\<lparr>stdout := stdout w @ [Printed s]\<rparr>"

definition print_unexpected :: "py_error \<Rightarrow> world \<Rightarrow> world" where
  "print_unexpected e w = w\<lparr>stdout := stdout w @ [PrintedUnexpected e]\<rparr>"

definition main :: "(request \<Rightarrow> http_outcome) \<Rightarrow> (pyval \<Rightarrow> string) \<Rightarrow> string \<Rightarrow> args \<Rightarrow> world \<Rightarrow> world" where
  "main net r api_key a w =
     (case fetch_weather_current net api_key (arg_city a) ''metric'' w of
        (Inl e, w1) \<Rightarrow> print_unexpected e w1
      | (Inr current, w1) \<Rightarrow>
          (case pretty_current r current of
             Inl e \<Rightarrow> print_unexpected e w1
           | Inr text1 \<Rightarrow>
               (let w2 = print text1 w1 in
                if arg_forecast a then
                  (let w3 = print (newline @ crystal_ball @ '' Forecast:'') w2 in
                   case fetch_weather_forecast net api_key (arg_city a) (arg_entries a) ''metric'' w3 of
                     (Inl e, w4) \<Rightarrow> print_unexpected e w4
                   | (Inr fc, w4) \<Rightarrow>
                       (case pretty_forecast r fc (arg_entries a) of
                          Inl e \<Rightarrow> print_unexpected e w4
                        | Inr text2 \<Rightarrow> print text2 w4))
                else w2)))"

text \<open>
  A run of the script: the module level first (lines 10 to 16), then \<^verbatim>\<open>main()\<close>. An
  exception of the module level ends the run before \<^verbatim>\<open>main\<close> is entered.
\<close>

definition program ::
  "(request \<Rightarrow> http_outcome) \<Rightarrow> (pyval \<Rightarrow> string) \<Rightarrow> (string \<rightharpoonup> string) \<Rightarrow> args \<Rightarrow> (py_error + unit) \<times> world" where
  "program net r env a =
     (case load_api_key env of
        Inl e \<Rightarrow> (Inl e, \<lparr>requests = [], stdout = []\<rparr>)
      | Inr api_key \<Rightarrow> (Inr (), main net r api_key a \<lparr>requests = [], stdout = []\<rparr>))"

section \<open>Vocabulary of the statements\<close>

text \<open>The requests the two fetch functions issue (lines 24, 25, 27 and 52, 53, 55).\<close>

definition current_request :: "string \<Rightarrow> string \<Rightarrow> string \<Rightarrow> request" where
  "current_request api_key city units =
     \<lparr>req_url = BASE_URL @ ''/weather'',
      req_params = [(''q'', city), (''appid'', api_key), (''units'', units)],
      req_timeout = 10\<rparr>"

definition forecast_request :: "string \<Rightarrow> string \<Rightarrow> string \<Rightarrow> request" where
  "forecast_request api_key city units =
     \<lparr>req_url = BASE_URL @ ''/forecast'',
      req_params = [(''q'', city), (''appid'', api_key), (''units'', units)],
      req_timeout = 10\<rparr>"

text \<open>The request path failed: the exchange raised, or the status made \<^verbatim>\<open>raise_for_status\<close> raise.\<close>

definition request_failed :: "(request \<Rightarrow> http_outcome) \<Rightarrow> request \<Rightarrow> bool" where
  "request_failed net req =
     (case net req of Raises k e \<Rightarrow> True | Responds resp \<Rightarrow> raise_for_status resp \<noteq> None)"

text \<open>
  A field read with a null default: the value under the key, \<^verbatim>\<open>None\<close> when the key is
  missing. A sub-object read with an empty default, and the first of the weather conditions.
\<close>

definition or_null :: "pyval option \<Rightarrow> pyval" where
  "or_null x = (case x of None \<Rightarrow> PNone | Some v \<Rightarrow> v)"

definition sub_object :: "pydict \<Rightarrow> string \<Rightarrow> pydict" where
  "sub_object kvs k = (case map_of kvs k of Some (PDict m) \<Rightarrow> m | _ \<Rightarrow> [])"

definition primary_condition :: "pydict \<Rightarrow> pydict" where
  "primary_condition kvs =
     (case map_of kvs ''weather'' of Some (PList (PDict m # rest)) \<Rightarrow> m | _ \<Rightarrow> [])"

text \<open>
  A body of the upstream schema in which optional parts may be missing: each of the
  sub-objects is absent or an object, and the weather conditions are absent or a list that
  starts with an object.
\<close>

definition absent_or_object :: "pydict \<Rightarrow> string \<Rightarrow> bool" where
  "absent_or_object kvs k = (case map_of kvs k of None \<Rightarrow> True | Some (PDict m) \<Rightarrow> True | _ \<Rightarrow> False)"

definition absent_or_conditions :: "pydict \<Rightarrow> bool" where
  "absent_or_conditions kvs =
     (case map_of kvs ''weather'' of
        None \<Rightarrow> True
      | Some (PList (PDict m # rest)) \<Rightarrow> True
      | _ \<Rightarrow> False)"

definition well_formed_current :: "pydict \<Rightarrow> bool" where
  "well_formed_current kvs =
     (absent_or_object kvs ''main'' \<and> absent_or_conditions kvs
      \<and> absent_or_object kvs ''wind'' \<and> absent_or_object kvs ''sys'')"

fun well_formed_entry :: "pyval \<Rightarrow> bool" where
  "well_formed_entry (PDict kvs) =
     (absent_or_object kvs ''main'' \<and> absent_or_conditions kvs \<and> absent_or_object kvs ''wind'')"
| "well_formed_entry _ = False"

fun entry_fields :: "pyval \<Rightarrow> pydict" where
  "entry_fields (PDict kvs) = kvs"
| "entry_fields _ = []"

text \<open>The records the specification describes: every field is the upstream value or null.\<close>

definition expected_current :: "pydict \<Rightarrow> pydict" where
  "expected_current kvs =
     [(''city'', or_null (map_of kvs ''name'')),
      (''country'', or_null (map_of (sub_object kvs ''sys'') ''country'')),
      (''temp'', or_null (map_of (sub_object kvs ''main'') ''temp'')),
      (''feels_like'', or_null (map_of (sub_object kvs ''main'') ''feels_like'')),
      (''humidity'', or_null (map_of (sub_object kvs ''main'') ''humidity'')),
      (''pressure'', or_null (map_of (sub_object kvs ''main'') ''pressure'')),
      (''weather_main'', or_null (map_of (primary_condition kvs) ''main'')),
      (''weather_desc'', or_null (map_of (primary_condition kvs) ''description'')),
      (''wind_speed'', or_null (map_of (sub_object kvs ''wind'') ''speed''))]"

definition expected_entry :: "pyval \<Rightarrow> pyval" where
  "expected_entry entry =
     (let kvs = entry_fields entry in
      PDict [(''datetime'', or_null (map_of kvs ''dt_txt'')),
             (''temp'', or_null (map_of (sub_object kvs ''main'') ''temp'')),
             (''feels_like'', or_null (map_of (sub_object kvs ''main'') ''feels_like'')),
             (''humidity'', or_null (map_of (sub_object kvs ''main'') ''humidity'')),
             (''pressure'', or_null (map_of (sub_object kvs ''main'') ''pressure'')),
             (''weather_main'', or_null (map_of (primary_condition kvs) ''main'')),
             (''weather_desc'', or_null (map_of (primary_condition kvs) ''description'')),
             (''wind_speed'', or_null (map_of (sub_object kvs ''wind'') ''speed''))])"

text \<open>The same for a forecast body: its list of entries and its city object.\<close>

definition forecast_list :: "pydict \<Rightarrow> pyval list" where
  "forecast_list kvs = (case map_of kvs ''list'' of Some (PList es) \<Rightarrow> es | _ \<Rightarrow> [])"

definition absent_or_list :: "pydict \<Rightarrow> bool" where
  "absent_or_list kvs = (case map_of kvs ''list'' of None \<Rightarrow> True | Some (PList es) \<Rightarrow> True | _ \<Rightarrow> False)"

definition well_formed_forecast :: "pydict \<Rightarrow> bool" where
  "well_formed_forecast kvs =
     (absent_or_list kvs \<and> list_all well_formed_entry (forecast_list kvs) \<and> absent_or_object kvs ''city'')"

definition expected_forecast :: "pydict \<Rightarrow> pyval list \<Rightarrow> pydict" where
  "expected_forecast kvs es =
     [(''city'', or_null (map_of (sub_object kvs ''city'') ''name'')),
      (''country'', or_null (map_of (sub_object kvs ''city'') ''country'')),
      (''forecasts'', PList (map expected_entry es))]"

text \<open>The line \<^verbatim>\<open>pretty_forecast\<close> writes for one entry.\<close>

definition rendered_line :: "(pyval \<Rightarrow> string) \<Rightarrow> pydict \<Rightarrow> string" where
  "rendered_line r e =
     py_str r (or_null (map_of e ''datetime'')) @ '': '' @ py_str r (or_null (map_of e ''temp''))
       @ degree @ ''C, '' @ py_str r (or_null (map_of e ''weather_desc''))"

text \<open>
  The rendering of a forecast as the specification words it: the first \<open>show_count\<close>
  entries, each as \<^verbatim>\<open>{timestamp}: {temperature}\<close>, a degree sign, a comma and
  \<^verbatim>\<open>{description}\<close>, joined with newlines.
\<close>

definition spec_forecast_line :: "(pyval \<Rightarrow> string) \<Rightarrow> pydict \<Rightarrow> string" where
  "spec_forecast_line r e =
     py_str r (or_null (map_of e ''datetime'')) @ '': '' @ py_str r (or_null (map_of e ''temp''))
       @ degree @ '', '' @ py_str r (or_null (map_of e ''weather_desc''))"

definition spec_render_forecast :: "(pyval \<Rightarrow> string) \<Rightarrow> pydict list \<Rightarrow> int \<Rightarrow> string" where
  "spec_render_forecast r es show_count =
     join newline (map (spec_forecast_line r) (take (nat show_count) es))"

section \<open>Sample inputs\<close>

definition sample_repr :: "pyval \<Rightarrow> string" where
  "sample_repr v = ''[...]''"

definition empty_world :: world where
  "empty_world = \<lparr>requests = [], stdout = []\<rparr>"

definition sample_args :: args where
  "sample_args = \<lparr>arg_city = ''Lahore'', arg_forecast = True, arg_entries = 2\<rparr>"

definition entry_0h :: pyval where
  "entry_0h =
     PDict [(''dt_txt'', PStr ''2024-01-01 00:00:00''),
            (''main'', PDict [(''temp'', PFloat ''5.5''), (''humidity'', PInt 40)]),
            (''weather'', PList [PDict [(''main'', PStr ''Clear''), (''description'', PStr ''clear sky'')]])]"

definition entry_3h :: pyval where
  "entry_3h = PDict [(''dt_txt'', PStr ''2024-01-01 03:00:00'')]"

definition entry_6h :: pyval where
  "entry_6h =
     PDict [(''dt_txt'', PStr ''2024-01-01 06:00:00''),
            (''main'', PDict [(''temp'', PInt 7)]),
            (''wind'', PDict [(''speed'', PFloat ''3.1'')])]"

definition forecast_body :: pydict where
  "forecast_body =
     [(''list'', PList [entry_0h, entry_3h, entry_6h]),
      (''city'', PDict [(''name'', PStr ''Lahore''), (''country'', PStr ''PK'')])]"

definition current_body :: pydict where
  "current_body =
     [(''name'', PStr ''Lahore''),
      (''sys'', PDict [(''country'', PStr ''PK'')]),
      (''main'', PDict [(''temp'', PFloat ''31.5''), (''humidity'', PInt 40)]),
      (''weather'', PList [PDict [(''main'', PStr ''Clear''), (''description'', PStr ''clear sky'')]])]"

text \<open>An upstream that answers 200 with the sample bodies.\<close>

definition net_ok :: "request \<Rightarrow> http_outcome" where
  "net_ok req =
     Responds \<lparr>status_code = 200, reason = ''OK'', resp_url = req_url req,
               json_body = Some (PDict (if req_url req = BASE_URL @ ''/weather''
                                        then current_body else forecast_body))\<rparr>"

text \<open>An upstream that times out on current weather and answers 404 on the forecast.\<close>

definition net_down :: "request \<Rightarrow> http_outcome" where
  "net_down req =
     (if req_url req = BASE_URL @ ''/weather'' then Raises Timeout ''Read timed out.''
      else Responds \<lparr>status_code = 404, reason = ''Not Found'', resp_url = req_url req,
                     json_body = Some (PDict [(''cod'', PStr ''404''), (''message'', PStr ''city not found'')])\<rparr>)"

text \<open>An upstream that answers 304 with an empty body.\<close>

definition net_not_modified :: "request \<Rightarrow> http_outcome" where
  "net_not_modified req =
     Responds \<lparr>status_code = 304, reason = ''Not Modified'', resp_url = req_url req, json_body = None\<rparr>"

text \<open>
  An upstream that answers 200 with bodies in which the list of weather conditions is
  present and empty, and one whose body has a null in place of the wind object.
\<close>

definition net_no_conditions :: "request \<Rightarrow> http_outcome" where
  "net_no_conditions req =
     Responds \<lparr>status_code = 200, reason = ''OK'', resp_url = req_url req,
               json_body = Some (PDict (if req_url req = BASE_URL @ ''/weather''
                                        then [(''name'', PStr ''Lahore''), (''weather'', PList [])]
                                        else [(''list'', PList [PDict [(''dt_txt'', PStr ''2024-01-01 00:00:00''),
                                                                       (''weather'', PList [])]])]))\<rparr>"

definition net_null_wind :: "request \<Rightarrow> http_outcome" where
  "net_null_wind req =
     Responds \<lparr>status_code = 200, reason = ''OK'', resp_url = req_url req,
               json_body = Some (PDict [(''name'', PStr ''Lahore''), (''wind'', PNone)])\<rparr>"

text \<open>The dictionaries the fetch functions return for the sample bodies.\<close>

definition sample_forecast :: pydict where
  "sample_forecast =
     [(''city'', PStr ''Lahore''),
      (''country'', PStr ''PK''),
      (''forecasts'', PList (map expected_entry [entry_0h, entry_3h, entry_6h]))]"

section \<open>Properties\<close>

subsection \<open>Sequencing and the request log\<close>

lemma and_then_Inr: "and_then (Inr v) f = f v"
  by (simp add: and_then_def)

lemma and_then_Inl: "and_then (Inl e) f = Inl e"
  by (simp add: and_then_def)

lemma and_then_eq_Inr: "and_then m f = Inr y \<longleftrightarrow> (\<exists>v. m = Inr v \<and> f v = Inr y)"
  by (cases m) (simp_all add: and_then_def)

lemma try_get_log: "requests (snd (try_get net req w)) = requests w @ [req]"
  by (simp add: try_get_def requests_get_def split: http_outcome.splits option.splits)

lemma fetch_weather_current_log:
  "requests (snd (fetch_weather_current net key loc units w)) = requests w @ [current_request key loc units]"
  using try_get_log [of net "current_request key loc units" w]
  by (auto simp: fetch_weather_current_def current_request_def split: prod.splits sum.splits)

lemma fetch_weather_forecast_log:
  "requests (snd (fetch_weather_forecast net key loc cnt units w)) = requests w @ [forecast_request key loc units]"
  using try_get_log [of net "forecast_request key loc units" w]
  by (auto simp: fetch_weather_forecast_def forecast_request_def split: prod.splits sum.splits)

lemma fetch_weather_current_issues:
  "fetch_weather_current net key loc units w = (res, w') \<Longrightarrow> requests w' \<noteq> []"
  using fetch_weather_current_log [of net key loc units w] by simp

lemma fetch_weather_forecast_issues:
  "fetch_weather_forecast net key loc cnt units w = (res, w') \<Longrightarrow> requests w' \<noteq> []"
  using fetch_weather_forecast_log [of net key loc cnt units w] by simp

lemma print_requests: "requests (print s w) = requests w" "requests (print_unexpected e w) = requests w"
  by (simp_all add: print_def print_unexpected_def)

text \<open>With a credential, a run does reach the network: \<^verbatim>\<open>main\<close> always issues a request.\<close>

lemma main_issues_request: "requests (main net r key a w) \<noteq> []"
  by (auto simp: main_def print_requests Let_def split: prod.splits sum.splits
           dest: fetch_weather_current_issues fetch_weather_forecast_issues)

lemma program_with_key_issues_request:
  "env ''OPENWEATHER_API_KEY'' = Some k \<Longrightarrow> k \<noteq> [] \<Longrightarrow> requests (snd (program net r env a)) \<noteq> []"
  by (simp add: program_def load_api_key_def main_issues_request)

subsection \<open>Rendering an error\<close>

text \<open>
  Claim C6. For every error result with message \<open>m\<close>, that is the dictionary
  \<^verbatim>\<open>{"error": m}\<close>, \<^verbatim>\<open>pretty_current\<close> returns exactly the line \<^verbatim>\<open>Error: m\<close>, and so
  does \<^verbatim>\<open>pretty_forecast\<close> for every \<open>show_n\<close>; for the message \<^verbatim>\<open>boom\<close> the line is
  \<^verbatim>\<open>Error: boom\<close>.
\<close>

theorem error_result_rendering:
  "pretty_current r [(''error'', PStr m)] = Inr (''Error: '' @ m)
   \<and> pretty_forecast r [(''error'', PStr m)] show_n = Inr (''Error: '' @ m)
   \<and> pretty_current r [(''error'', PStr ''boom'')] = Inr ''Error: boom''"
  by (simp add: pretty_current_def pretty_forecast_def py_in_def py_getitem_def and_then_Inr)

subsection \<open>The placeholder of an empty forecast\<close>

text \<open>
  Claim C7. For every forecast result without the error key and every \<open>show_n\<close> such that
  no entry is left after the slice \<^verbatim>\<open>[:show_n]\<close> at display time, \<^verbatim>\<open>pretty_forecast\<close>
  returns exactly \<^verbatim>\<open>No forecast data.\<close>, not the empty string.
\<close>

theorem no_forecast_placeholder:
  assumes "\<not> py_in ''error'' fc"
    and "map_of fc ''forecasts'' = Some (PList es)"
    and "slice_to es show_n = []"
  shows "pretty_forecast r fc show_n = Inr ''No forecast data.''"
  using assms by (simp add: pretty_forecast_def and_then_Inr)

theorem no_forecast_placeholder_witness:
  "\<not> py_in ''error'' sample_forecast
   \<and> map_of sample_forecast ''forecasts'' = Some (PList (map expected_entry [entry_0h, entry_3h, entry_6h]))
   \<and> slice_to (map expected_entry [entry_0h, entry_3h, entry_6h]) 0 = []
   \<and> pretty_forecast sample_repr sample_forecast 0 = Inr ''No forecast data.''"
proof -
  have a: "\<not> py_in ''error'' sample_forecast"
    by (simp add: py_in_def sample_forecast_def)
  have b: "map_of sample_forecast ''forecasts'' = Some (PList (map expected_entry [entry_0h, entry_3h, entry_6h]))"
    by (simp add: sample_forecast_def)
  have c: "slice_to (map expected_entry [entry_0h, entry_3h, entry_6h]) 0 = []"
    by (simp add: slice_to_def)
  from no_forecast_placeholder [OF a b c, of sample_repr] a b c show ?thesis by simp
qed

subsection \<open>The credential\<close>

text \<open>
  Claim C8. If the variable \<^verbatim>\<open>OPENWEATHER_API_KEY\<close> is absent or empty, the run ends at
  once with a \<^verbatim>\<open>RuntimeError\<close> whose text names the variable, and no HTTP request is
  issued in that run (nothing is printed either).
\<close>

theorem missing_credential_aborts_before_network:
  assumes "env ''OPENWEATHER_API_KEY'' = None \<or> env ''OPENWEATHER_API_KEY'' = Some []"
  shows "fst (program net r env a) = Inl (RuntimeError (cross_mark @ '' Missing OPENWEATHER_API_KEY in .env file''))
         \<and> (\<exists>before after. cross_mark @ '' Missing OPENWEATHER_API_KEY in .env file'' = before @ ''OPENWEATHER_API_KEY'' @ after)
         \<and> requests (snd (program net r env a)) = []
         \<and> stdout (snd (program net r env a)) = []"
proof -
  have "cross_mark @ '' Missing OPENWEATHER_API_KEY in .env file''
        = (cross_mark @ '' Missing '') @ ''OPENWEATHER_API_KEY'' @ '' in .env file''"
    by simp
  then have "\<exists>before after. cross_mark @ '' Missing OPENWEATHER_API_KEY in .env file'' = before @ ''OPENWEATHER_API_KEY'' @ after"
    by blast
  moreover from assms have "load_api_key env = Inl (RuntimeError (cross_mark @ '' Missing OPENWEATHER_API_KEY in .env file''))"
    by (auto simp: load_api_key_def)
  ultimately show ?thesis
    by (simp add: program_def)
qed

theorem missing_credential_aborts_before_network_witness:
  "(Map.empty ''OPENWEATHER_API_KEY'' = None \<or> Map.empty ''OPENWEATHER_API_KEY'' = Some [])
   \<and> fst (program net_ok sample_repr Map.empty sample_args) = Inl (RuntimeError (cross_mark @ '' Missing OPENWEATHER_API_KEY in .env file''))
   \<and> requests (snd (program net_ok sample_repr Map.empty sample_args)) = []"
  using missing_credential_aborts_before_network [of Map.empty net_ok sample_repr sample_args] by simp

subsection \<open>Failures of the request path\<close>

lemma try_get_raises: "net req = Raises k e \<Longrightarrow> fst (try_get net req w) = Inl e"
  by (simp add: try_get_def requests_get_def)

lemma try_get_status:
  "net req = Responds resp \<Longrightarrow> raise_for_status resp = Some e \<Longrightarrow> fst (try_get net req w) = Inl e"
  by (simp add: try_get_def requests_get_def)

lemma try_get_ok:
  "net req = Responds resp \<Longrightarrow> raise_for_status resp = None \<Longrightarrow> fst (try_get net req w) = Inr resp"
  by (simp add: try_get_def requests_get_def)

lemma fetch_weather_current_caught:
  "fst (try_get net (current_request key loc units) w) = Inl e \<Longrightarrow>
   fst (fetch_weather_current net key loc units w) = Inr [(''error'', PStr (''Request failed: '' @ e))]"
  by (auto simp: fetch_weather_current_def current_request_def split: prod.splits sum.splits)

lemma fetch_weather_forecast_caught:
  "fst (try_get net (forecast_request key loc units) w) = Inl e \<Longrightarrow>
   fst (fetch_weather_forecast net key loc cnt units w) = Inr [(''error'', PStr (''Request failed: '' @ e))]"
  by (auto simp: fetch_weather_forecast_def forecast_request_def split: prod.splits sum.splits)

lemma raise_for_status_4xx_5xx:
  "400 \<le> status_code resp \<Longrightarrow> status_code resp < 600 \<Longrightarrow> \<exists>e. raise_for_status resp = Some e"
  by (simp add: raise_for_status_def)

lemma raise_for_status_iff:
  "raise_for_status resp \<noteq> None \<longleftrightarrow> 400 \<le> status_code resp \<and> status_code resp < 600"
  by (auto simp: raise_for_status_def)

text \<open>
  Claim C1, as the code has it. For every location, unit system and count: if the HTTP
  request raises a request exception (a timeout, a connection failure or any other), or
  returns a status from 400 to 599, then \<^verbatim>\<open>fetch_weather_current\<close> and
  \<^verbatim>\<open>fetch_weather_forecast\<close> each return the error result \<^verbatim>\<open>{"error": "Request failed: ..."}\<close>
  carrying the text of the exception, and raise nothing.
\<close>

theorem request_failure_gives_error_result:
  "(net (current_request key loc units) = Raises k e \<longrightarrow>
      fst (fetch_weather_current net key loc units w) = Inr [(''error'', PStr (''Request failed: '' @ e))])
   \<and> (net (forecast_request key loc units) = Raises k e \<longrightarrow>
      fst (fetch_weather_forecast net key loc cnt units w) = Inr [(''error'', PStr (''Request failed: '' @ e))])
   \<and> (net (current_request key loc units) = Responds resp \<and> 400 \<le> status_code resp \<and> status_code resp < 600 \<longrightarrow>
      (\<exists>e'. raise_for_status resp = Some e' \<and>
         fst (fetch_weather_current net key loc units w) = Inr [(''error'', PStr (''Request failed: '' @ e'))]))
   \<and> (net (forecast_request key loc units) = Responds resp \<and> 400 \<le> status_code resp \<and> status_code resp < 600 \<longrightarrow>
      (\<exists>e'. raise_for_status resp = Some e' \<and>
         fst (fetch_weather_forecast net key loc cnt units w) = Inr [(''error'', PStr (''Request failed: '' @ e'))]))"
proof (intro conjI impI)
  assume "net (current_request key loc units) = Raises k e"
  then show "fst (fetch_weather_current net key loc units w) = Inr [(''error'', PStr (''Request failed: '' @ e))]"
    by (simp add: try_get_raises fetch_weather_current_caught)
next
  assume "net (forecast_request key loc units) = Raises k e"
  then show "fst (fetch_weather_forecast net key loc cnt units w) = Inr [(''error'', PStr (''Request failed: '' @ e))]"
    by (simp add: try_get_raises fetch_weather_forecast_caught)
next
  assume a: "net (current_request key loc units) = Responds resp \<and> 400 \<le> status_code resp \<and> status_code resp < 600"
  then obtain e' where e': "raise_for_status resp = Some e'"
    using raise_for_status_4xx_5xx by blast
  with a have "fst (try_get net (current_request key loc units) w) = Inl e'"
    by (simp add: try_get_status)
  with e' show "\<exists>e'. raise_for_status resp = Some e' \<and>
         fst (fetch_weather_current net key loc units w) = Inr [(''error'', PStr (''Request failed: '' @ e'))]"
    by (simp add: fetch_weather_current_caught)
next
  assume a: "net (forecast_request key loc units) = Responds resp \<and> 400 \<le> status_code resp \<and> status_code resp < 600"
  then obtain e' where e': "raise_for_status resp = Some e'"
    using raise_for_status_4xx_5xx by blast
  with a have "fst (try_get net (forecast_request key loc units) w) = Inl e'"
    by (simp add: try_get_status)
  with e' show "\<exists>e'. raise_for_status resp = Some e' \<and>
         fst (fetch_weather_forecast net key loc cnt units w) = Inr [(''error'', PStr (''Request failed: '' @ e'))]"
    by (simp add: fetch_weather_forecast_caught)
qed

text \<open>A timeout on current weather and a 404 on the forecast, both with imperial units.\<close>

theorem request_failure_gives_error_result_witness:
  "net_down (current_request ''k'' ''Lahore'' ''imperial'') = Raises Timeout ''Read timed out.''
   \<and> fst (fetch_weather_current net_down ''k'' ''Lahore'' ''imperial'' empty_world)
       = Inr [(''error'', PStr ''Request failed: Read timed out.'')]
   \<and> (\<exists>resp. net_down (forecast_request ''k'' ''Lahore'' ''imperial'') = Responds resp \<and> status_code resp = 404)
   \<and> fst (fetch_weather_forecast net_down ''k'' ''Lahore'' 5 ''imperial'' empty_world)
       = Inr [(''error'', PStr ''Request failed: 404 Client Error: Not Found for url: https://api.openweathermap.org/data/2.5/forecast'')]"
  using request_failure_gives_error_result
    [of net_down "''k''" "''Lahore''" "''imperial''" Timeout "''Read timed out.''" empty_world 5
        "\<lparr>status_code = 404, reason = ''Not Found'', resp_url = BASE_URL @ ''/forecast'',
          json_body = Some (PDict [(''cod'', PStr ''404''), (''message'', PStr ''city not found'')])\<rparr>"]
  by (simp add: net_down_def current_request_def forecast_request_def BASE_URL_def raise_for_status_def
        show_nat.simps digit_char_def)

text \<open>
  The claim as written speaks of every status outside 200 to 299. A status 304 is outside
  that range, \<^verbatim>\<open>raise_for_status\<close> returns for it, and the empty body then makes
  \<^verbatim>\<open>resp.json()\<close> raise outside the \<^verbatim>\<open>try\<close> block: both functions raise past their
  boundary instead of returning an error result.
\<close>

theorem non_2xx_status_counterexample:
  "net_not_modified (current_request ''k'' ''Lahore'' ''metric'')
     = Responds \<lparr>status_code = 304, reason = ''Not Modified'', resp_url = BASE_URL @ ''/weather'', json_body = None\<rparr>
   \<and> \<not> (200 \<le> (304::nat) \<and> (304::nat) < 300)
   \<and> fst (fetch_weather_current net_not_modified ''k'' ''Lahore'' ''metric'' empty_world) = Inl JSONDecodeError
   \<and> fst (fetch_weather_forecast net_not_modified ''k'' ''Lahore'' 5 ''metric'' empty_world) = Inl JSONDecodeError"
  by (simp add: net_not_modified_def current_request_def fetch_weather_current_def fetch_weather_forecast_def
        try_get_def requests_get_def raise_for_status_def resp_json_def and_then_Inl)

subsection \<open>Parsing a body\<close>

lemma py_get_field: "py_get (PDict m) k PNone = Inr (or_null (map_of m k))"
  by (simp add: or_null_def)

lemma py_get_sub_object:
  "absent_or_object kvs k \<Longrightarrow> py_get (PDict kvs) k (PDict []) = Inr (PDict (sub_object kvs k))"
  by (auto simp: absent_or_object_def sub_object_def split: option.splits pyval.splits)

lemma py_get_conditions:
  "absent_or_conditions kvs \<Longrightarrow>
   and_then (py_get (PDict kvs) ''weather'' (PList [PDict []])) (\<lambda>ws. and_then (py_index0 ws) f)
     = f (PDict (primary_condition kvs))"
  by (auto simp: absent_or_conditions_def primary_condition_def and_then_Inr
           split: option.splits pyval.splits list.splits)

lemma py_get_list:
  "absent_or_list kvs \<Longrightarrow> py_get (PDict kvs) ''list'' (PList []) = Inr (PList (forecast_list kvs))"
  by (auto simp: absent_or_list_def forecast_list_def split: option.splits pyval.splits)

lemma fetch_weather_current_parsed:
  assumes "fst (try_get net (current_request key loc units) w) = Inr resp"
    and "json_body resp = Some (PDict kvs)"
    and "well_formed_current kvs"
  shows "fst (fetch_weather_current net key loc units w) = Inr (expected_current kvs)"
proof -
  from assms(3) have wf: "absent_or_object kvs ''main''" "absent_or_conditions kvs"
    "absent_or_object kvs ''wind''" "absent_or_object kvs ''sys''"
    by (simp_all add: well_formed_current_def)
  obtain w' where t: "try_get net (current_request key loc units) w = (Inr resp, w')"
    using assms(1) by (cases "try_get net (current_request key loc units) w") simp
  have j: "resp_json resp = Inr (PDict kvs)"
    using assms(2) by (simp add: resp_json_def)
  show ?thesis
    using t unfolding fetch_weather_current_def current_request_def Let_def
    by (simp add: j and_then_Inr py_get_sub_object [OF wf(1)] py_get_sub_object [OF wf(3)]
          py_get_sub_object [OF wf(4)] py_get_conditions [OF wf(2)] py_get_field expected_current_def del: py_get.simps)
qed

lemma forecast_entry_parsed:
  assumes "well_formed_entry entry"
  shows "forecast_entry entry = Inr (expected_entry entry)"
proof -
  from assms obtain kvs where e: "entry = PDict kvs"
    by (cases entry) simp_all
  with assms have wf: "absent_or_object kvs ''main''" "absent_or_conditions kvs" "absent_or_object kvs ''wind''"
    by simp_all
  show ?thesis
    unfolding forecast_entry_def e
    by (simp add: and_then_Inr py_get_sub_object [OF wf(1)] py_get_sub_object [OF wf(3)]
          py_get_conditions [OF wf(2)] py_get_field expected_entry_def del: py_get.simps)
qed

lemma forecast_loop_parsed:
  "list_all well_formed_entry es \<Longrightarrow> forecast_loop es acc = Inr (acc @ map expected_entry es)"
  by (induction es arbitrary: acc) (simp_all add: forecast_entry_parsed and_then_Inr)

lemma fetch_weather_forecast_parsed:
  assumes "fst (try_get net (forecast_request key loc units) w) = Inr resp"
    and "json_body resp = Some (PDict kvs)"
    and "absent_or_list kvs"
    and "absent_or_object kvs ''city''"
    and "list_all well_formed_entry (slice_to (forecast_list kvs) cnt)"
  shows "fst (fetch_weather_forecast net key loc cnt units w)
           = Inr (expected_forecast kvs (slice_to (forecast_list kvs) cnt))"
proof -
  obtain w' where t: "try_get net (forecast_request key loc units) w = (Inr resp, w')"
    using assms(1) by (cases "try_get net (forecast_request key loc units) w") simp
  have j: "resp_json resp = Inr (PDict kvs)"
    using assms(2) by (simp add: resp_json_def)
  show ?thesis
    using t unfolding fetch_weather_forecast_def forecast_request_def Let_def
    by (simp add: j and_then_Inr py_get_list [OF assms(3)] py_get_sub_object [OF assms(4)]
          forecast_loop_parsed [OF assms(5)] py_get_field expected_forecast_def del: py_get.simps)
qed

lemma slice_to_positive: "0 < n \<Longrightarrow> slice_to xs n = take (nat n) xs"
  by (simp add: slice_to_def)

lemma list_all_slice_to: "list_all P xs \<Longrightarrow> list_all P (slice_to xs n)"
  by (auto simp: slice_to_def list_all_iff dest: in_set_takeD)

lemmas sample_defs = net_ok_def forecast_body_def current_body_def entry_0h_def entry_3h_def entry_6h_def
  BASE_URL_def empty_world_def current_request_def forecast_request_def

lemmas eval_defs = fetch_weather_forecast_def fetch_weather_current_def try_get_def requests_get_def
  raise_for_status_def resp_json_def forecast_entry_def and_then_Inr and_then_Inl slice_to_def

text \<open>
  Claim C2, as the code has it. For every response body that is a JSON object in which each
  optional part is missing or of the upstream schema (each of \<^verbatim>\<open>main\<close>, \<^verbatim>\<open>wind\<close>,
  \<^verbatim>\<open>sys\<close> absent or an object, \<^verbatim>\<open>weather\<close> absent or a list starting with an object; for
  a forecast, \<^verbatim>\<open>list\<close> absent or a list of such entries and \<^verbatim>\<open>city\<close> absent or an
  object), \<^verbatim>\<open>fetch_weather_current\<close> and \<^verbatim>\<open>fetch_weather_forecast\<close> raise nothing and
  return the record in which every field is the upstream value, or null where it is
  missing: a missing name, \<^verbatim>\<open>sys\<close>, \<^verbatim>\<open>main\<close>, \<^verbatim>\<open>weather\<close>, \<^verbatim>\<open>wind\<close> or \<^verbatim>\<open>dt_txt\<close> makes
  each field read from it null.
\<close>

theorem missing_fields_surface_as_null:
  "(net (current_request key loc units) = Responds resp \<and> raise_for_status resp = None
      \<and> json_body resp = Some (PDict kvs) \<and> well_formed_current kvs \<longrightarrow>
      fst (fetch_weather_current net key loc units w) = Inr (expected_current kvs))
   \<and> (net (forecast_request key loc units) = Responds resp' \<and> raise_for_status resp' = None
      \<and> json_body resp' = Some (PDict kvs') \<and> well_formed_forecast kvs' \<longrightarrow>
      fst (fetch_weather_forecast net key loc cnt units w)
        = Inr (expected_forecast kvs' (slice_to (forecast_list kvs') cnt)))
   \<and> (map_of kvs ''name'' = None \<longrightarrow> map_of (expected_current kvs) ''city'' = Some PNone)
   \<and> (map_of kvs ''sys'' = None \<longrightarrow> map_of (expected_current kvs) ''country'' = Some PNone)
   \<and> (map_of kvs ''main'' = None \<longrightarrow>
        map_of (expected_current kvs) ''temp'' = Some PNone
        \<and> map_of (expected_current kvs) ''feels_like'' = Some PNone
        \<and> map_of (expected_current kvs) ''humidity'' = Some PNone
        \<and> map_of (expected_current kvs) ''pressure'' = Some PNone)
   \<and> (map_of kvs ''weather'' = None \<longrightarrow>
        map_of (expected_current kvs) ''weather_main'' = Some PNone
        \<and> map_of (expected_current kvs) ''weather_desc'' = Some PNone)
   \<and> (map_of kvs ''wind'' = None \<longrightarrow> map_of (expected_current kvs) ''wind_speed'' = Some PNone)
   \<and> (map_of ekvs ''dt_txt'' = None \<longrightarrow>
        map_of (entry_fields (expected_entry (PDict ekvs))) ''datetime'' = Some PNone)
   \<and> (map_of ekvs ''main'' = None \<longrightarrow>
        map_of (entry_fields (expected_entry (PDict ekvs))) ''temp'' = Some PNone
        \<and> map_of (entry_fields (expected_entry (PDict ekvs))) ''feels_like'' = Some PNone
        \<and> map_of (entry_fields (expected_entry (PDict ekvs))) ''humidity'' = Some PNone
        \<and> map_of (entry_fields (expected_entry (PDict ekvs))) ''pressure'' = Some PNone)
   \<and> (map_of ekvs ''weather'' = None \<longrightarrow>
        map_of (entry_fields (expected_entry (PDict ekvs))) ''weather_main'' = Some PNone
        \<and> map_of (entry_fields (expected_entry (PDict ekvs))) ''weather_desc'' = Some PNone)
   \<and> (map_of ekvs ''wind'' = None \<longrightarrow>
        map_of (entry_fields (expected_entry (PDict ekvs))) ''wind_speed'' = Some PNone)"
proof -
  have current: "fst (fetch_weather_current net key loc units w) = Inr (expected_current kvs)"
    if "net (current_request key loc units) = Responds resp \<and> raise_for_status resp = None
        \<and> json_body resp = Some (PDict kvs) \<and> well_formed_current kvs"
    using that by (simp add: try_get_ok fetch_weather_current_parsed)
  have forecast: "fst (fetch_weather_forecast net key loc cnt units w)
        = Inr (expected_forecast kvs' (slice_to (forecast_list kvs') cnt))"
    if "net (forecast_request key loc units) = Responds resp' \<and> raise_for_status resp' = None
        \<and> json_body resp' = Some (PDict kvs') \<and> well_formed_forecast kvs'"
    using that
    by (simp add: try_get_ok fetch_weather_forecast_parsed well_formed_forecast_def list_all_slice_to)
  have nulls: "or_null None = PNone" "\<And>m k. map_of m k = None \<Longrightarrow> sub_object m k = []"
    "\<And>m. map_of m ''weather'' = None \<Longrightarrow> primary_condition m = []"
    by (simp_all add: or_null_def sub_object_def primary_condition_def)
  show ?thesis
    using current forecast
    by (simp add: expected_current_def expected_entry_def nulls)
qed

text \<open>The sample bodies: no wind object in the current weather, a second entry with a timestamp only.\<close>

theorem missing_fields_surface_as_null_witness:
  "well_formed_current current_body
   \<and> map_of current_body ''wind'' = None
   \<and> fst (fetch_weather_current net_ok ''k'' ''Lahore'' ''metric'' empty_world)
       = Inr [(''city'', PStr ''Lahore''), (''country'', PStr ''PK''), (''temp'', PFloat ''31.5''),
              (''feels_like'', PNone), (''humidity'', PInt 40), (''pressure'', PNone),
              (''weather_main'', PStr ''Clear''), (''weather_desc'', PStr ''clear sky''),
              (''wind_speed'', PNone)]
   \<and> well_formed_forecast forecast_body
   \<and> fst (fetch_weather_forecast net_ok ''k'' ''Lahore'' 2 ''metric'' empty_world)
       = Inr [(''city'', PStr ''Lahore''), (''country'', PStr ''PK''),
              (''forecasts'', PList
                 [PDict [(''datetime'', PStr ''2024-01-01 00:00:00''), (''temp'', PFloat ''5.5''),
                         (''feels_like'', PNone), (''humidity'', PInt 40), (''pressure'', PNone),
                         (''weather_main'', PStr ''Clear''), (''weather_desc'', PStr ''clear sky''),
                         (''wind_speed'', PNone)],
                  PDict [(''datetime'', PStr ''2024-01-01 03:00:00''), (''temp'', PNone),
                         (''feels_like'', PNone), (''humidity'', PNone), (''pressure'', PNone),
                         (''weather_main'', PNone), (''weather_desc'', PNone),
                         (''wind_speed'', PNone)]])]"
proof -
  have a: "well_formed_current current_body"
    by (simp add: well_formed_current_def absent_or_object_def absent_or_conditions_def current_body_def)
  have b: "well_formed_forecast forecast_body"
    by (simp add: well_formed_forecast_def absent_or_list_def forecast_list_def absent_or_object_def
          absent_or_conditions_def forecast_body_def entry_0h_def entry_3h_def entry_6h_def)
  have c: "map_of current_body ''wind'' = None"
    by (simp add: current_body_def)
  have d: "expected_current current_body
       = [(''city'', PStr ''Lahore''), (''country'', PStr ''PK''), (''temp'', PFloat ''31.5''),
              (''feels_like'', PNone), (''humidity'', PInt 40), (''pressure'', PNone),
              (''weather_main'', PStr ''Clear''), (''weather_desc'', PStr ''clear sky''),
              (''wind_speed'', PNone)]"
    by (simp add: expected_current_def current_body_def or_null_def sub_object_def primary_condition_def)
  have e: "expected_forecast forecast_body (slice_to (forecast_list forecast_body) 2)
       = [(''city'', PStr ''Lahore''), (''country'', PStr ''PK''),
              (''forecasts'', PList
                 [PDict [(''datetime'', PStr ''2024-01-01 00:00:00''), (''temp'', PFloat ''5.5''),
                         (''feels_like'', PNone), (''humidity'', PInt 40), (''pressure'', PNone),
                         (''weather_main'', PStr ''Clear''), (''weather_desc'', PStr ''clear sky''),
                         (''wind_speed'', PNone)],
                  PDict [(''datetime'', PStr ''2024-01-01 03:00:00''), (''temp'', PNone),
                         (''feels_like'', PNone), (''humidity'', PNone), (''pressure'', PNone),
                         (''weather_main'', PNone), (''weather_desc'', PNone),
                         (''wind_speed'', PNone)]])]"
    by (simp add: expected_forecast_def expected_entry_def forecast_list_def slice_to_def forecast_body_def
          entry_0h_def entry_3h_def entry_6h_def or_null_def sub_object_def primary_condition_def)
  show ?thesis
    using missing_fields_surface_as_null
      [of net_ok "''k''" "''Lahore''" "''metric''"
          "\<lparr>status_code = 200, reason = ''OK'', resp_url = BASE_URL @ ''/weather'', json_body = Some (PDict current_body)\<rparr>"
          current_body empty_world
          "\<lparr>status_code = 200, reason = ''OK'', resp_url = BASE_URL @ ''/forecast'', json_body = Some (PDict forecast_body)\<rparr>"
          forecast_body 2]
      a b c d e
    by (simp add: net_ok_def current_request_def forecast_request_def raise_for_status_def BASE_URL_def)
qed

text \<open>
  The claim as written speaks of every well-formed JSON body with parts missing and says
  that parsing is total. The defaults of \<^verbatim>\<open>get\<close> apply to an absent key only. A body
  whose list of weather conditions is present and empty has no conditions, and \<^verbatim>\<open>[0]\<close>
  raises on it, in the current weather and in a forecast entry alike; a body with a null in
  place of the wind object has no wind data, and \<^verbatim>\<open>None\<close> has no \<^verbatim>\<open>get\<close>. Both bodies
  are well-formed JSON.
\<close>

theorem present_but_empty_counterexample:
  "net_no_conditions (current_request ''k'' ''Lahore'' ''metric'')
     = Responds \<lparr>status_code = 200, reason = ''OK'', resp_url = BASE_URL @ ''/weather'',
                 json_body = Some (PDict [(''name'', PStr ''Lahore''), (''weather'', PList [])])\<rparr>
   \<and> fst (fetch_weather_current net_no_conditions ''k'' ''Lahore'' ''metric'' empty_world) = Inl IndexError
   \<and> net_no_conditions (forecast_request ''k'' ''Lahore'' ''metric'')
     = Responds \<lparr>status_code = 200, reason = ''OK'', resp_url = BASE_URL @ ''/forecast'',
                 json_body = Some (PDict [(''list'', PList [PDict [(''dt_txt'', PStr ''2024-01-01 00:00:00''),
                                                                 (''weather'', PList [])]])])\<rparr>
   \<and> fst (fetch_weather_forecast net_no_conditions ''k'' ''Lahore'' 5 ''metric'' empty_world) = Inl IndexError
   \<and> net_null_wind (current_request ''k'' ''Lahore'' ''metric'')
     = Responds \<lparr>status_code = 200, reason = ''OK'', resp_url = BASE_URL @ ''/weather'',
                 json_body = Some (PDict [(''name'', PStr ''Lahore''), (''wind'', PNone)])\<rparr>
   \<and> fst (fetch_weather_current net_null_wind ''k'' ''Lahore'' ''metric'' empty_world) = Inl AttributeError"
  by (simp add: net_no_conditions_def net_null_wind_def BASE_URL_def empty_world_def current_request_def
        forecast_request_def eval_defs)

text \<open>The same for every body with an empty list of conditions, and for a null wind object.\<close>

lemma empty_conditions_raise:
  assumes "net (current_request key loc units) = Responds resp"
    and "raise_for_status resp = None"
    and "json_body resp = Some (PDict kvs)"
    and "map_of kvs ''weather'' = Some (PList [])"
  shows "fst (fetch_weather_current net key loc units w) = Inl IndexError"
proof -
  have "fst (try_get net (current_request key loc units) w) = Inr resp"
    using assms(1,2) by (rule try_get_ok)
  then obtain w' where t: "try_get net (current_request key loc units) w = (Inr resp, w')"
    by (cases "try_get net (current_request key loc units) w") simp
  have j: "resp_json resp = Inr (PDict kvs)"
    using assms(3) by (simp add: resp_json_def)
  show ?thesis
    using t assms(4) unfolding fetch_weather_current_def current_request_def Let_def
    by (simp add: j and_then_Inr and_then_Inl)
qed

lemma null_wind_raises:
  assumes "net (current_request key loc units) = Responds resp"
    and "raise_for_status resp = None"
    and "json_body resp = Some (PDict [(''wind'', PNone)])"
  shows "fst (fetch_weather_current net key loc units w) = Inl AttributeError"
proof -
  have "fst (try_get net (current_request key loc units) w) = Inr resp"
    using assms(1,2) by (rule try_get_ok)
  then obtain w' where t: "try_get net (current_request key loc units) w = (Inr resp, w')"
    by (cases "try_get net (current_request key loc units) w") simp
  have j: "resp_json resp = Inr (PDict [(''wind'', PNone)])"
    using assms(3) by (simp add: resp_json_def)
  show ?thesis
    using t unfolding fetch_weather_current_def current_request_def Let_def
    by (simp add: j and_then_Inr and_then_Inl)
qed

subsection \<open>Truncation at fetch time\<close>

text \<open>
  Claim C3. For every upstream forecast list and every positive count, \<^verbatim>\<open>fetch_weather_forecast\<close>
  returns the records of exactly the first \<open>cnt\<close> entries of the upstream list, in their
  order; when the count is at least the number of entries, all of them, and no error. (The
  entries taken are of the upstream schema, so that parsing them raises nothing.)
\<close>

theorem forecast_truncated_to_count:
  assumes "net (forecast_request key loc units) = Responds resp"
    and "raise_for_status resp = None"
    and "json_body resp = Some (PDict kvs)"
    and "map_of kvs ''list'' = Some (PList es)"
    and "absent_or_object kvs ''city''"
    and "list_all well_formed_entry (take (nat cnt) es)"
    and "0 < cnt"
  shows "\<exists>d. fst (fetch_weather_forecast net key loc cnt units w) = Inr d
           \<and> \<not> py_in ''error'' d
           \<and> map_of d ''forecasts'' = Some (PList (map expected_entry (take (nat cnt) es)))
           \<and> length (take (nat cnt) es) = min (nat cnt) (length es)
           \<and> (int (length es) \<le> cnt \<longrightarrow> map_of d ''forecasts'' = Some (PList (map expected_entry es)))"
proof -
  have l: "absent_or_list kvs" "forecast_list kvs = es"
    using assms(4) by (simp_all add: absent_or_list_def forecast_list_def)
  have s: "slice_to es cnt = take (nat cnt) es"
    using assms(7) by (simp add: slice_to_positive)
  have "fst (fetch_weather_forecast net key loc cnt units w)
          = Inr (expected_forecast kvs (slice_to (forecast_list kvs) cnt))"
    using assms(1,2,3,5,6) l s
    by (intro fetch_weather_forecast_parsed [where resp = resp]) (simp_all add: try_get_ok)
  then have "fst (fetch_weather_forecast net key loc cnt units w)
          = Inr (expected_forecast kvs (take (nat cnt) es))"
    by (simp add: l s)
  then show ?thesis
    by (simp add: expected_forecast_def py_in_def min_def)
qed

theorem forecast_truncated_to_count_witness:
  "net_ok (forecast_request ''k'' ''Lahore'' ''metric'')
     = Responds \<lparr>status_code = 200, reason = ''OK'', resp_url = BASE_URL @ ''/forecast'',
                 json_body = Some (PDict forecast_body)\<rparr>
   \<and> map_of forecast_body ''list'' = Some (PList [entry_0h, entry_3h, entry_6h])
   \<and> list_all well_formed_entry (take (nat 2) [entry_0h, entry_3h, entry_6h])
   \<and> (0::int) < 2
   \<and> (\<exists>d. fst (fetch_weather_forecast net_ok ''k'' ''Lahore'' 2 ''metric'' empty_world) = Inr d
           \<and> map_of d ''forecasts'' = Some (PList [expected_entry entry_0h, expected_entry entry_3h]))
   \<and> list_all well_formed_entry (take (nat 5) [entry_0h, entry_3h, entry_6h])
   \<and> (0::int) < 5
   \<and> (\<exists>d. fst (fetch_weather_forecast net_ok ''k'' ''Lahore'' 5 ''metric'' empty_world) = Inr d
           \<and> map_of d ''forecasts''
               = Some (PList [expected_entry entry_0h, expected_entry entry_3h, expected_entry entry_6h]))"
proof -
  have a: "net_ok (forecast_request ''k'' ''Lahore'' ''metric'')
     = Responds \<lparr>status_code = 200, reason = ''OK'', resp_url = BASE_URL @ ''/forecast'',
                 json_body = Some (PDict forecast_body)\<rparr>"
    by (simp add: net_ok_def forecast_request_def BASE_URL_def)
  have b: "raise_for_status \<lparr>status_code = 200, reason = ''OK'', resp_url = BASE_URL @ ''/forecast'',
                 json_body = Some (PDict forecast_body)\<rparr> = None"
    by (simp add: raise_for_status_def)
  have c: "json_body \<lparr>status_code = 200, reason = ''OK'', resp_url = BASE_URL @ ''/forecast'',
                 json_body = Some (PDict forecast_body)\<rparr> = Some (PDict forecast_body)"
    by simp
  have d: "map_of forecast_body ''list'' = Some (PList [entry_0h, entry_3h, entry_6h])"
    by (simp add: forecast_body_def)
  have e: "absent_or_object forecast_body ''city''"
    by (simp add: absent_or_object_def forecast_body_def)
  have f2: "list_all well_formed_entry (take (nat 2) [entry_0h, entry_3h, entry_6h])"
    by (simp add: entry_0h_def entry_3h_def absent_or_object_def absent_or_conditions_def)
  have f5: "list_all well_formed_entry (take (nat 5) [entry_0h, entry_3h, entry_6h])"
    by (simp add: entry_0h_def entry_3h_def entry_6h_def absent_or_object_def absent_or_conditions_def)
  have g2: "(0::int) < 2" and g5: "(0::int) < 5"
    by simp_all
  have t2: "take (nat 2) [entry_0h, entry_3h, entry_6h] = [entry_0h, entry_3h]"
    by simp
  have t5: "take (nat 5) [entry_0h, entry_3h, entry_6h] = [entry_0h, entry_3h, entry_6h]"
    by simp
  from forecast_truncated_to_count
         [where net = net_ok and key = "''k''" and loc = "''Lahore''" and units = "''metric''"
            and w = empty_world, OF a b c d e f2 g2]
  have two: "\<exists>d. fst (fetch_weather_forecast net_ok ''k'' ''Lahore'' 2 ''metric'' empty_world) = Inr d
           \<and> map_of d ''forecasts'' = Some (PList [expected_entry entry_0h, expected_entry entry_3h])"
    unfolding t2 by auto
  from forecast_truncated_to_count
         [where net = net_ok and key = "''k''" and loc = "''Lahore''" and units = "''metric''"
            and w = empty_world, OF a b c d e f5 g5]
  have five: "\<exists>d. fst (fetch_weather_forecast net_ok ''k'' ''Lahore'' 5 ''metric'' empty_world) = Inr d
           \<and> map_of d ''forecasts''
               = Some (PList [expected_entry entry_0h, expected_entry entry_3h, expected_entry entry_6h])"
    unfolding t5 by auto
  from a d f2 g2 two f5 g5 five show ?thesis by blast
qed

text \<open>
  Claim C4, at the count \<open>- 1\<close>. The claim says that every count at or below zero gives an
  empty list of entries. The slice \<^verbatim>\<open>raw_list[:-1]\<close> keeps all entries but the last: of
  the three entries of the sample body, the function returns the first two.
\<close>

theorem negative_count_keeps_entries:
  "fst (fetch_weather_forecast net_ok ''k'' ''Lahore'' (- 1) ''metric'' empty_world)
     = Inr [(''city'', PStr ''Lahore''), (''country'', PStr ''PK''),
            (''forecasts'', PList
               [PDict [(''datetime'', PStr ''2024-01-01 00:00:00''), (''temp'', PFloat ''5.5''),
                       (''feels_like'', PNone), (''humidity'', PInt 40), (''pressure'', PNone),
                       (''weather_main'', PStr ''Clear''), (''weather_desc'', PStr ''clear sky''),
                       (''wind_speed'', PNone)],
                PDict [(''datetime'', PStr ''2024-01-01 03:00:00''), (''temp'', PNone),
                       (''feels_like'', PNone), (''humidity'', PNone), (''pressure'', PNone),
                       (''weather_main'', PNone), (''weather_desc'', PNone),
                       (''wind_speed'', PNone)]])]"
  by (simp add: sample_defs eval_defs)

text \<open>The count zero does give the empty list.\<close>

lemma zero_count_is_empty:
  "fst (fetch_weather_forecast net_ok ''k'' ''Lahore'' 0 ''metric'' empty_world)
     = Inr [(''city'', PStr ''Lahore''), (''country'', PStr ''PK''), (''forecasts'', PList [])]"
  by (simp add: sample_defs eval_defs)

subsection \<open>The two kinds of result\<close>

lemma try_get_failed:
  "request_failed net req \<Longrightarrow> \<exists>e. fst (try_get net req w) = Inl e"
  by (auto simp: request_failed_def try_get_def requests_get_def split: http_outcome.splits)

lemma try_get_succeeded:
  "\<not> request_failed net req \<Longrightarrow> \<exists>resp. fst (try_get net req w) = Inr resp"
  by (auto simp: request_failed_def try_get_def requests_get_def split: http_outcome.splits)

lemma fetch_weather_current_shape:
  assumes "fst (try_get net (current_request key loc units) w) = Inr resp"
    and "fst (fetch_weather_current net key loc units w) = Inr d"
  shows "\<exists>c k t f h p wm wd ws.
           d = [(''city'', c), (''country'', k), (''temp'', t), (''feels_like'', f), (''humidity'', h),
                (''pressure'', p), (''weather_main'', wm), (''weather_desc'', wd), (''wind_speed'', ws)]"
proof -
  obtain w' where t: "try_get net (current_request key loc units) w = (Inr resp, w')"
    using assms(1) by (cases "try_get net (current_request key loc units) w") simp
  from assms(2) show ?thesis
    unfolding fetch_weather_current_def Let_def t [unfolded current_request_def]
    by (auto simp: and_then_eq_Inr)
qed

lemma forecast_entry_dict: "forecast_entry entry = Inr d \<Longrightarrow> \<exists>m. d = PDict m"
  unfolding forecast_entry_def by (auto simp: and_then_eq_Inr)

lemma forecast_loop_dicts:
  "forecast_loop es acc = Inr fs \<Longrightarrow> \<exists>ds. fs = acc @ map PDict ds"
proof (induction es arbitrary: acc)
  case Nil
  then have "fs = acc @ map PDict []" by simp
  then show ?case by blast
next
  case (Cons e es)
  from Cons.prems obtain d where d: "forecast_entry e = Inr d" and l: "forecast_loop es (acc @ [d]) = Inr fs"
    by (auto simp: and_then_eq_Inr)
  from d obtain m where m: "d = PDict m"
    using forecast_entry_dict by blast
  from Cons.IH [OF l] obtain ds where "fs = (acc @ [d]) @ map PDict ds"
    by blast
  with m have "fs = acc @ map PDict (m # ds)"
    by simp
  then show ?case by blast
qed

lemma fetch_weather_forecast_shape:
  assumes "fst (try_get net (forecast_request key loc units) w) = Inr resp"
    and "fst (fetch_weather_forecast net key loc cnt units w) = Inr fc"
  shows "\<exists>c k ds. fc = [(''city'', c), (''country'', k), (''forecasts'', PList (map PDict ds))]"
proof -
  obtain w' where t: "try_get net (forecast_request key loc units) w = (Inr resp, w')"
    using assms(1) by (cases "try_get net (forecast_request key loc units) w") simp
  from assms(2) obtain c k fs es where fc: "fc = [(''city'', c), (''country'', k), (''forecasts'', PList fs)]"
    and l: "forecast_loop es [] = Inr fs"
    unfolding fetch_weather_forecast_def Let_def t [unfolded forecast_request_def]
    by (auto simp: and_then_eq_Inr)
  from forecast_loop_dicts [OF l] obtain ds where "fs = map PDict ds"
    by auto
  with fc show ?thesis by blast
qed

lemma sample_current_imperial:
  "fst (fetch_weather_current net_ok ''k'' ''Lahore'' ''imperial'' empty_world)
     = Inr [(''city'', PStr ''Lahore''), (''country'', PStr ''PK''), (''temp'', PFloat ''31.5''),
            (''feels_like'', PNone), (''humidity'', PInt 40), (''pressure'', PNone),
            (''weather_main'', PStr ''Clear''), (''weather_desc'', PStr ''clear sky''),
            (''wind_speed'', PNone)]"
  by (simp add: sample_defs eval_defs)

lemma sample_current_failed:
  "fst (fetch_weather_current net_down ''k'' ''Lahore'' ''imperial'' empty_world)
     = Inr [(''error'', PStr ''Request failed: Read timed out.'')]"
  by (simp add: net_down_def BASE_URL_def eval_defs)

text \<open>
  Claim C9. Every dictionary that \<^verbatim>\<open>fetch_weather_current\<close> or \<^verbatim>\<open>fetch_weather_forecast\<close>
  returns has one of two fixed key sets: the single key \<^verbatim>\<open>error\<close> when the request path
  failed, and otherwise the nine keys of a current record (the three keys of a forecast),
  none of which is \<^verbatim>\<open>error\<close>. So the test \<^verbatim>\<open>"error" in d\<close> of the display helpers is true
  exactly for the results of a failed request.
\<close>

theorem success_and_error_records_disjoint:
  "(fst (fetch_weather_current net key loc units w) = Inr d \<longrightarrow>
      (if request_failed net (current_request key loc units)
       then map fst d = [''error''] \<and> py_in ''error'' d
       else map fst d = [''city'', ''country'', ''temp'', ''feels_like'', ''humidity'', ''pressure'',
                         ''weather_main'', ''weather_desc'', ''wind_speed'']
            \<and> \<not> py_in ''error'' d))
   \<and> (fst (fetch_weather_forecast net key loc cnt units w) = Inr fc \<longrightarrow>
      (if request_failed net (forecast_request key loc units)
       then map fst fc = [''error''] \<and> py_in ''error'' fc
       else map fst fc = [''city'', ''country'', ''forecasts''] \<and> \<not> py_in ''error'' fc))"
proof (intro conjI impI)
  assume r: "fst (fetch_weather_current net key loc units w) = Inr d"
  show "if request_failed net (current_request key loc units)
       then map fst d = [''error''] \<and> py_in ''error'' d
       else map fst d = [''city'', ''country'', ''temp'', ''feels_like'', ''humidity'', ''pressure'',
                         ''weather_main'', ''weather_desc'', ''wind_speed'']
            \<and> \<not> py_in ''error'' d"
  proof (cases "request_failed net (current_request key loc units)")
    case True
    then obtain e where "fst (try_get net (current_request key loc units) w) = Inl e"
      using try_get_failed by blast
    with r have "d = [(''error'', PStr (''Request failed: '' @ e))]"
      by (simp add: fetch_weather_current_caught)
    with True show ?thesis by (simp add: py_in_def)
  next
    case False
    then obtain resp where "fst (try_get net (current_request key loc units) w) = Inr resp"
      using try_get_succeeded by blast
    from fetch_weather_current_shape [OF this r] False show ?thesis
      by (auto simp: py_in_def)
  qed
next
  assume r: "fst (fetch_weather_forecast net key loc cnt units w) = Inr fc"
  show "if request_failed net (forecast_request key loc units)
       then map fst fc = [''error''] \<and> py_in ''error'' fc
       else map fst fc = [''city'', ''country'', ''forecasts''] \<and> \<not> py_in ''error'' fc"
  proof (cases "request_failed net (forecast_request key loc units)")
    case True
    then obtain e where "fst (try_get net (forecast_request key loc units) w) = Inl e"
      using try_get_failed by blast
    with r have "fc = [(''error'', PStr (''Request failed: '' @ e))]"
      by (simp add: fetch_weather_forecast_caught)
    with True show ?thesis by (simp add: py_in_def)
  next
    case False
    then obtain resp where "fst (try_get net (forecast_request key loc units) w) = Inr resp"
      using try_get_succeeded by blast
    from fetch_weather_forecast_shape [OF this r] False show ?thesis
      by (auto simp: py_in_def)
  qed
qed

text \<open>A timeout and an answered request.\<close>

theorem success_and_error_records_disjoint_witness:
  "request_failed net_down (current_request ''k'' ''Lahore'' ''imperial'')
   \<and> (\<exists>d. fst (fetch_weather_current net_down ''k'' ''Lahore'' ''imperial'' empty_world) = Inr d
          \<and> map fst d = [''error''] \<and> py_in ''error'' d)
   \<and> \<not> request_failed net_ok (current_request ''k'' ''Lahore'' ''imperial'')
   \<and> (\<exists>d. fst (fetch_weather_current net_ok ''k'' ''Lahore'' ''imperial'' empty_world) = Inr d
          \<and> map fst d = [''city'', ''country'', ''temp'', ''feels_like'', ''humidity'', ''pressure'',
                         ''weather_main'', ''weather_desc'', ''wind_speed'']
          \<and> \<not> py_in ''error'' d)"
proof -
  have a: "request_failed net_down (current_request ''k'' ''Lahore'' ''imperial'')"
    by (simp add: request_failed_def net_down_def current_request_def)
  have b: "\<not> request_failed net_ok (current_request ''k'' ''Lahore'' ''imperial'')"
    by (simp add: request_failed_def net_ok_def current_request_def raise_for_status_def)
  from success_and_error_records_disjoint
         [where net = net_down and key = "''k''" and loc = "''Lahore''" and units = "''imperial''"
            and w = empty_world and d = "[(''error'', PStr ''Request failed: Read timed out.'')]"]
       a sample_current_failed
  have c: "\<exists>d. fst (fetch_weather_current net_down ''k'' ''Lahore'' ''imperial'' empty_world) = Inr d
          \<and> map fst d = [''error''] \<and> py_in ''error'' d"
    by simp
  from success_and_error_records_disjoint
         [where net = net_ok and key = "''k''" and loc = "''Lahore''" and units = "''imperial''"
            and w = empty_world
            and d = "[(''city'', PStr ''Lahore''), (''country'', PStr ''PK''), (''temp'', PFloat ''31.5''),
                      (''feels_like'', PNone), (''humidity'', PInt 40), (''pressure'', PNone),
                      (''weather_main'', PStr ''Clear''), (''weather_desc'', PStr ''clear sky''),
                      (''wind_speed'', PNone)]"]
       b sample_current_imperial
  have d: "\<exists>d. fst (fetch_weather_current net_ok ''k'' ''Lahore'' ''imperial'' empty_world) = Inr d
          \<and> map fst d = [''city'', ''country'', ''temp'', ''feels_like'', ''humidity'', ''pressure'',
                         ''weather_main'', ''weather_desc'', ''wind_speed'']
          \<and> \<not> py_in ''error'' d"
    by simp
  from a b c d show ?thesis by blast
qed

subsection \<open>Rendering a forecast\<close>

lemma slice_to_map: "slice_to (map f xs) n = map f (slice_to xs n)"
  by (simp add: slice_to_def take_map)

lemma forecast_lines_dicts:
  "forecast_lines r (map PDict ds) acc = Inr (acc @ map (rendered_line r) ds)"
  by (induction ds arbitrary: acc) (simp_all add: and_then_Inr rendered_line_def or_null_def)

lemma pretty_forecast_dicts:
  assumes "\<not> py_in ''error'' fc"
    and "map_of fc ''forecasts'' = Some (PList (map PDict ds))"
  shows "pretty_forecast r fc show_n
           = Inr (if slice_to ds show_n = [] then ''No forecast data.''
                  else join newline (map (rendered_line r) (slice_to ds show_n)))"
  using assms
  by (simp add: pretty_forecast_def and_then_Inr slice_to_map forecast_lines_dicts)

lemmas render_defs = pretty_forecast_def pretty_current_def py_in_def py_getitem_def and_then_Inr
  slice_to_def newline_def degree_def

lemmas sample_forecast_defs = sample_forecast_def expected_entry_def entry_0h_def entry_3h_def entry_6h_def
  or_null_def sub_object_def primary_condition_def

text \<open>
  Claim C5, as the code has it. For every forecast result with at least one entry and every
  \<open>show_n\<close> of at least one, \<^verbatim>\<open>pretty_forecast\<close> takes the first \<open>show_n\<close> entries of the
  result (a second truncation, independent of the count at fetch time), renders each entry as
  the line \<^verbatim>\<open>{datetime}: {temp}\<close>, the degree sign, \<^verbatim>\<open>C, {weather_desc}\<close>, and joins the
  lines with newlines.
\<close>

theorem forecast_lines_rendered:
  assumes "\<not> py_in ''error'' fc"
    and "map_of fc ''forecasts'' = Some (PList (map PDict ds))"
    and "ds \<noteq> []"
    and "1 \<le> show_n"
  shows "pretty_forecast r fc show_n = Inr (join newline (map (rendered_line r) (take (nat show_n) ds)))
         \<and> (\<forall>e. rendered_line r e
               = py_str r (or_null (map_of e ''datetime'')) @ '': '' @ py_str r (or_null (map_of e ''temp''))
                   @ degree @ ''C, '' @ py_str r (or_null (map_of e ''weather_desc'')))"
proof -
  from assms(4) have s: "slice_to ds show_n = take (nat show_n) ds"
    by (simp add: slice_to_def)
  from assms(3,4) have "take (nat show_n) ds \<noteq> []"
    by (cases ds) (simp_all add: take_Cons' )
  with s pretty_forecast_dicts [OF assms(1,2), of r show_n] show ?thesis
    by (simp add: rendered_line_def)
qed

theorem forecast_lines_rendered_witness:
  "\<not> py_in ''error'' sample_forecast
   \<and> (1::int) \<le> 2
   \<and> pretty_forecast sample_repr sample_forecast 2
       = Inr (''2024-01-01 00:00:00: 5.5'' @ degree @ ''C, clear sky'' @ newline
              @ ''2024-01-01 03:00:00: None'' @ degree @ ''C, None'')"
proof -
  have a: "\<not> py_in ''error'' sample_forecast"
    by (simp add: py_in_def sample_forecast_def)
  have b: "map_of sample_forecast ''forecasts''
      = Some (PList (map PDict (map entry_fields (map expected_entry [entry_0h, entry_3h, entry_6h]))))"
    by (simp add: sample_forecast_def expected_entry_def Let_def)
  have c: "map entry_fields (map expected_entry [entry_0h, entry_3h, entry_6h]) \<noteq> []"
    by simp
  have d: "(1::int) \<le> 2"
    by simp
  from forecast_lines_rendered [OF a b c d, of sample_repr] a d show ?thesis
    by (simp add: sample_forecast_defs rendered_line_def newline_def degree_def)
qed

text \<open>
  The claim as written has no \<^verbatim>\<open>C\<close> after the degree sign and speaks of every
  \<open>show_n\<close>. On the sample forecast of three entries: for \<open>show_n = 1\<close> the line of the code
  has the \<^verbatim>\<open>C\<close>; for \<open>show_n = 0\<close> the code returns the placeholder and not the join of no
  lines; for \<open>show_n = - 1\<close> the code renders two entries.
\<close>

theorem forecast_line_format_counterexample:
  "pretty_forecast sample_repr sample_forecast 1 = Inr (''2024-01-01 00:00:00: 5.5'' @ degree @ ''C, clear sky'')
   \<and> spec_render_forecast sample_repr (map entry_fields (map expected_entry [entry_0h, entry_3h, entry_6h])) 1
       = ''2024-01-01 00:00:00: 5.5'' @ degree @ '', clear sky''
   \<and> pretty_forecast sample_repr sample_forecast 1
       \<noteq> Inr (spec_render_forecast sample_repr (map entry_fields (map expected_entry [entry_0h, entry_3h, entry_6h])) 1)
   \<and> pretty_forecast sample_repr sample_forecast 0 = Inr ''No forecast data.''
   \<and> spec_render_forecast sample_repr (map entry_fields (map expected_entry [entry_0h, entry_3h, entry_6h])) 0 = ''''
   \<and> pretty_forecast sample_repr sample_forecast (- 1)
       = Inr (''2024-01-01 00:00:00: 5.5'' @ degree @ ''C, clear sky'' @ newline
              @ ''2024-01-01 03:00:00: None'' @ degree @ ''C, None'')
   \<and> spec_render_forecast sample_repr (map entry_fields (map expected_entry [entry_0h, entry_3h, entry_6h])) (- 1) = ''''"
  by (simp add: render_defs sample_forecast_defs spec_render_forecast_def spec_forecast_line_def)

subsection \<open>Unit labels\<close>

lemma fetch_weather_current_success:
  assumes "fst (fetch_weather_current net key loc units w) = Inr d"
    and "\<not> py_in ''error'' d"
  shows "\<exists>c k t f h p wm wd ws.
           d = [(''city'', c), (''country'', k), (''temp'', t), (''feels_like'', f), (''humidity'', h),
                (''pressure'', p), (''weather_main'', wm), (''weather_desc'', wd), (''wind_speed'', ws)]"
proof (cases "request_failed net (current_request key loc units)")
  case True
  then obtain e where "fst (try_get net (current_request key loc units) w) = Inl e"
    using try_get_failed by blast
  with assms(1) have "d = [(''error'', PStr (''Request failed: '' @ e))]"
    by (simp add: fetch_weather_current_caught)
  with assms(2) show ?thesis by (simp add: py_in_def)
next
  case False
  then obtain resp where "fst (try_get net (current_request key loc units) w) = Inr resp"
    using try_get_succeeded by blast
  from fetch_weather_current_shape [OF this assms(1)] show ?thesis .
qed

lemma fetch_weather_forecast_success:
  assumes "fst (fetch_weather_forecast net key loc cnt units w) = Inr fc"
    and "\<not> py_in ''error'' fc"
  shows "\<exists>c k ds. fc = [(''city'', c), (''country'', k), (''forecasts'', PList (map PDict ds))]"
proof (cases "request_failed net (forecast_request key loc units)")
  case True
  then obtain e where "fst (try_get net (forecast_request key loc units) w) = Inl e"
    using try_get_failed by blast
  with assms(1) have "fc = [(''error'', PStr (''Request failed: '' @ e))]"
    by (simp add: fetch_weather_forecast_caught)
  with assms(2) show ?thesis by (simp add: py_in_def)
next
  case False
  then obtain resp where "fst (try_get net (forecast_request key loc units) w) = Inr resp"
    using try_get_succeeded by blast
  from fetch_weather_forecast_shape [OF this assms(1)] show ?thesis .
qed

lemma sample_forecast_imperial:
  "fst (fetch_weather_forecast net_ok ''k'' ''Lahore'' 2 ''imperial'' empty_world)
     = Inr [(''city'', PStr ''Lahore''), (''country'', PStr ''PK''),
            (''forecasts'', PList
               [PDict [(''datetime'', PStr ''2024-01-01 00:00:00''), (''temp'', PFloat ''5.5''),
                       (''feels_like'', PNone), (''humidity'', PInt 40), (''pressure'', PNone),
                       (''weather_main'', PStr ''Clear''), (''weather_desc'', PStr ''clear sky''),
                       (''wind_speed'', PNone)],
                PDict [(''datetime'', PStr ''2024-01-01 03:00:00''), (''temp'', PNone),
                       (''feels_like'', PNone), (''humidity'', PNone), (''pressure'', PNone),
                       (''weather_main'', PNone), (''weather_desc'', PNone),
                       (''wind_speed'', PNone)]])]"
  by (simp add: sample_defs eval_defs)

text \<open>
  Claim C10. For every unit system passed to the fetch functions and every successful
  result, \<^verbatim>\<open>pretty_current\<close> writes the temperature and the feels-like temperature with
  the degree sign and \<^verbatim>\<open>C\<close>, and the wind speed with \<^verbatim>\<open>m/s\<close>; \<^verbatim>\<open>pretty_forecast\<close> writes the
  temperature of each entry with the degree sign and \<^verbatim>\<open>C\<close>. The labels are constants of
  the text: the unit system does not occur in it.
\<close>

theorem unit_labels_are_constant:
  "(fst (fetch_weather_current net key loc units w) = Inr d \<and> \<not> py_in ''error'' d \<longrightarrow>
      pretty_current r d
        = Inr (round_pushpin @ '' '' @ py_str r (or_null (map_of d ''city'')) @ '', ''
                 @ py_str r (or_null (map_of d ''country'')) @ newline
               @ sun_small_cloud @ ''  '' @ py_str r (or_null (map_of d ''weather_main'')) @ '' - ''
                 @ py_str r (or_null (map_of d ''weather_desc'')) @ newline
               @ thermometer @ ''  Temp: '' @ py_str r (or_null (map_of d ''temp'')) @ degree @ ''C (feels like ''
                 @ py_str r (or_null (map_of d ''feels_like'')) @ degree @ ''C)'' @ newline
               @ droplet @ '' Humidity: '' @ py_str r (or_null (map_of d ''humidity'')) @ ''% | Pressure: ''
                 @ py_str r (or_null (map_of d ''pressure'')) @ '' hPa'' @ newline
               @ dash_symbol @ '' Wind speed: '' @ py_str r (or_null (map_of d ''wind_speed'')) @ '' m/s'' @ newline))
   \<and> (fst (fetch_weather_forecast net key loc cnt units w) = Inr fc \<and> \<not> py_in ''error'' fc \<longrightarrow>
      (\<exists>ds. map_of fc ''forecasts'' = Some (PList (map PDict ds))
         \<and> pretty_forecast r fc show_n
             = Inr (if slice_to ds show_n = [] then ''No forecast data.''
                    else join newline (map (rendered_line r) (slice_to ds show_n)))))
   \<and> rendered_line r e
       = py_str r (or_null (map_of e ''datetime'')) @ '': '' @ py_str r (or_null (map_of e ''temp''))
           @ degree @ ''C, '' @ py_str r (or_null (map_of e ''weather_desc''))"
proof (intro conjI impI)
  assume a: "fst (fetch_weather_current net key loc units w) = Inr d \<and> \<not> py_in ''error'' d"
  then have a1: "fst (fetch_weather_current net key loc units w) = Inr d" and a2: "\<not> py_in ''error'' d"
    by simp_all
  from fetch_weather_current_success [OF a1 a2] obtain c k t f h p wm wd ws where
    "d = [(''city'', c), (''country'', k), (''temp'', t), (''feels_like'', f), (''humidity'', h),
          (''pressure'', p), (''weather_main'', wm), (''weather_desc'', wd), (''wind_speed'', ws)]"
    by (elim exE)
  then show "pretty_current r d
        = Inr (round_pushpin @ '' '' @ py_str r (or_null (map_of d ''city'')) @ '', ''
                 @ py_str r (or_null (map_of d ''country'')) @ newline
               @ sun_small_cloud @ ''  '' @ py_str r (or_null (map_of d ''weather_main'')) @ '' - ''
                 @ py_str r (or_null (map_of d ''weather_desc'')) @ newline
               @ thermometer @ ''  Temp: '' @ py_str r (or_null (map_of d ''temp'')) @ degree @ ''C (feels like ''
                 @ py_str r (or_null (map_of d ''feels_like'')) @ degree @ ''C)'' @ newline
               @ droplet @ '' Humidity: '' @ py_str r (or_null (map_of d ''humidity'')) @ ''% | Pressure: ''
                 @ py_str r (or_null (map_of d ''pressure'')) @ '' hPa'' @ newline
               @ dash_symbol @ '' Wind speed: '' @ py_str r (or_null (map_of d ''wind_speed'')) @ '' m/s'' @ newline)"
    by (simp add: pretty_current_def py_in_def py_getitem_def and_then_Inr or_null_def)
next
  assume a: "fst (fetch_weather_forecast net key loc cnt units w) = Inr fc \<and> \<not> py_in ''error'' fc"
  then have a1: "fst (fetch_weather_forecast net key loc cnt units w) = Inr fc" and a2: "\<not> py_in ''error'' fc"
    by simp_all
  from fetch_weather_forecast_success [OF a1 a2] obtain c k ds
    where fc: "fc = [(''city'', c), (''country'', k), (''forecasts'', PList (map PDict ds))]"
    by (elim exE)
  then have m: "map_of fc ''forecasts'' = Some (PList (map PDict ds))"
    by simp
  from pretty_forecast_dicts [OF a2 m] m
  show "\<exists>ds. map_of fc ''forecasts'' = Some (PList (map PDict ds))
         \<and> pretty_forecast r fc show_n
             = Inr (if slice_to ds show_n = [] then ''No forecast data.''
                    else join newline (map (rendered_line r) (slice_to ds show_n)))"
    by blast
next
  show "rendered_line r e
       = py_str r (or_null (map_of e ''datetime'')) @ '': '' @ py_str r (or_null (map_of e ''temp''))
           @ degree @ ''C, '' @ py_str r (or_null (map_of e ''weather_desc''))"
    by (simp add: rendered_line_def)
qed

text \<open>Fetched with imperial units, the sample bodies are still labelled with \<^verbatim>\<open>C\<close> and \<^verbatim>\<open>m/s\<close>.\<close>

theorem unit_labels_are_constant_witness:
  "fst (fetch_weather_current net_ok ''k'' ''Lahore'' ''imperial'' empty_world)
     = Inr [(''city'', PStr ''Lahore''), (''country'', PStr ''PK''), (''temp'', PFloat ''31.5''),
            (''feels_like'', PNone), (''humidity'', PInt 40), (''pressure'', PNone),
            (''weather_main'', PStr ''Clear''), (''weather_desc'', PStr ''clear sky''),
            (''wind_speed'', PNone)]
   \<and> pretty_current sample_repr
        [(''city'', PStr ''Lahore''), (''country'', PStr ''PK''), (''temp'', PFloat ''31.5''),
         (''feels_like'', PNone), (''humidity'', PInt 40), (''pressure'', PNone),
         (''weather_main'', PStr ''Clear''), (''weather_desc'', PStr ''clear sky''),
         (''wind_speed'', PNone)]
      = Inr (round_pushpin @ '' Lahore, PK'' @ newline
             @ sun_small_cloud @ ''  Clear - clear sky'' @ newline
             @ thermometer @ ''  Temp: 31.5'' @ degree @ ''C (feels like None'' @ degree @ ''C)'' @ newline
             @ droplet @ '' Humidity: 40% | Pressure: None hPa'' @ newline
             @ dash_symbol @ '' Wind speed: None m/s'' @ newline)
   \<and> (\<exists>fc. fst (fetch_weather_forecast net_ok ''k'' ''Lahore'' 2 ''imperial'' empty_world) = Inr fc
          \<and> pretty_forecast sample_repr fc 5
              = Inr (''2024-01-01 00:00:00: 5.5'' @ degree @ ''C, clear sky'' @ newline
                     @ ''2024-01-01 03:00:00: None'' @ degree @ ''C, None''))"
proof -
  have n: "\<not> py_in ''error''
        [(''city'', PStr ''Lahore''), (''country'', PStr ''PK''), (''temp'', PFloat ''31.5''),
         (''feels_like'', PNone), (''humidity'', PInt 40), (''pressure'', PNone),
         (''weather_main'', PStr ''Clear''), (''weather_desc'', PStr ''clear sky''),
         (''wind_speed'', PNone)]"
    by (simp add: py_in_def)
  note inst = unit_labels_are_constant
         [where net = net_ok and key = "''k''" and loc = "''Lahore''" and units = "''imperial''"
            and w = empty_world and r = sample_repr and cnt = 2 and show_n = 5
            and d = "[(''city'', PStr ''Lahore''), (''country'', PStr ''PK''), (''temp'', PFloat ''31.5''),
                      (''feels_like'', PNone), (''humidity'', PInt 40), (''pressure'', PNone),
                      (''weather_main'', PStr ''Clear''), (''weather_desc'', PStr ''clear sky''),
                      (''wind_speed'', PNone)]"
            and fc = "[(''city'', PStr ''Lahore''), (''country'', PStr ''PK''),
            (''forecasts'', PList
               [PDict [(''datetime'', PStr ''2024-01-01 00:00:00''), (''temp'', PFloat ''5.5''),
                       (''feels_like'', PNone), (''humidity'', PInt 40), (''pressure'', PNone),
                       (''weather_main'', PStr ''Clear''), (''weather_desc'', PStr ''clear sky''),
                       (''wind_speed'', PNone)],
                PDict [(''datetime'', PStr ''2024-01-01 03:00:00''), (''temp'', PNone),
                       (''feels_like'', PNone), (''humidity'', PNone), (''pressure'', PNone),
                       (''weather_main'', PNone), (''weather_desc'', PNone),
                       (''wind_speed'', PNone)]])]"]
  from inst sample_current_imperial n
  have cur: "pretty_current sample_repr
        [(''city'', PStr ''Lahore''), (''country'', PStr ''PK''), (''temp'', PFloat ''31.5''),
         (''feels_like'', PNone), (''humidity'', PInt 40), (''pressure'', PNone),
         (''weather_main'', PStr ''Clear''), (''weather_desc'', PStr ''clear sky''),
         (''wind_speed'', PNone)]
      = Inr (round_pushpin @ '' Lahore, PK'' @ newline
             @ sun_small_cloud @ ''  Clear - clear sky'' @ newline
             @ thermometer @ ''  Temp: 31.5'' @ degree @ ''C (feels like None'' @ degree @ ''C)'' @ newline
             @ droplet @ '' Humidity: 40% | Pressure: None hPa'' @ newline
             @ dash_symbol @ '' Wind speed: None m/s'' @ newline)"
    by (simp add: or_null_def show_int_def show_nat.simps digit_char_def)
  from inst sample_forecast_imperial
  have "\<exists>fc. fst (fetch_weather_forecast net_ok ''k'' ''Lahore'' 2 ''imperial'' empty_world) = Inr fc
          \<and> pretty_forecast sample_repr fc 5
              = Inr (''2024-01-01 00:00:00: 5.5'' @ degree @ ''C, clear sky'' @ newline
                     @ ''2024-01-01 03:00:00: None'' @ degree @ ''C, None'')"
    by (auto simp: py_in_def map_eq_Cons_conv slice_to_def rendered_line_def or_null_def)
  with cur sample_current_imperial show ?thesis by blast
qed

end
